theory Spec2Isabelle
  imports Complex_Main "HOL-Library.Signed_Division"
begin

section \<open>Conventions of the embedding\<close>

text \<open>
  The C++ sources compute with IEEE doubles.  In this development a \<^verbatim>\<open>double\<close> that is
  known to be finite is a \<^typ>\<open>real\<close>: rounding and overflow are not modelled.  Where the
  source can produce a non-finite value from finite operands (the logarithm of zero in
  \<^verbatim>\<open>regime::hurstExponent\<close>, the division by the bucket size in
  \<^verbatim>\<open>MicrostructureAnalyzer::computeVPIN\<close>), the value is carried in the type \<open>dbl\<close> below,
  whose operations follow IEEE 754 for infinities and NaN.  A \<^verbatim>\<open>size_t\<close> is a \<^typ>\<open>nat\<close>, a
  \<^verbatim>\<open>long\<close> an \<^typ>\<open>int\<close>; a \<^verbatim>\<open>std::deque\<close> or \<^verbatim>\<open>std::vector\<close> is a list whose head is
  the front.  A data member \<^verbatim>\<open>x_\<close> of a class is the record field \<open>x\<close>, prefixed with
  an abbreviation of its class where two classes share the name.  Console output is not
  modelled.
\<close>

section \<open>Market types (include/util/market\_types.h)\<close>

record MarketTick =
  symbol :: string
  price :: real
  volume :: real
  timestamp :: int

section \<open>Doubles that may be non-finite\<close>

text \<open>
  A double that may be non-finite: a finite value, one of the two infinities, or NaN.  The
  operations follow IEEE 754 on the special values (\<open>\<infinity> - \<infinity>\<close>, \<open>0 \<cdot> \<infinity>\<close>, \<open>0 / 0\<close> and \<open>\<infinity> / \<infinity>\<close>
  are NaN, every comparison with NaN is false); finite results are exact and zero is
  unsigned.
\<close>

datatype dbl = Fin real | PInf | NInf | NaN

fun d_neg :: "dbl \<Rightarrow> dbl" where
  "d_neg (Fin a) = Fin (- a)"
| "d_neg PInf = NInf"
| "d_neg NInf = PInf"
| "d_neg NaN = NaN"

fun d_add :: "dbl \<Rightarrow> dbl \<Rightarrow> dbl" where
  "d_add NaN y = NaN"
| "d_add x NaN = NaN"
| "d_add (Fin a) (Fin b) = Fin (a + b)"
| "d_add PInf NInf = NaN"
| "d_add NInf PInf = NaN"
| "d_add PInf y = PInf"
| "d_add NInf y = NInf"
| "d_add (Fin a) y = y"

definition d_sub :: "dbl \<Rightarrow> dbl \<Rightarrow> dbl" where
  "d_sub x y = d_add x (d_neg y)"

text \<open>The sign of an infinite product or quotient.\<close>

definition signedInf :: "bool \<Rightarrow> dbl" where
  "signedInf positive = (if positive then PInf else NInf)"

fun d_mul :: "dbl \<Rightarrow> dbl \<Rightarrow> dbl" where
  "d_mul NaN y = NaN"
| "d_mul x NaN = NaN"
| "d_mul (Fin a) (Fin b) = Fin (a * b)"
| "d_mul (Fin a) PInf = (if a = 0 then NaN else signedInf (a > 0))"
| "d_mul (Fin a) NInf = (if a = 0 then NaN else signedInf (a < 0))"
| "d_mul PInf (Fin b) = (if b = 0 then NaN else signedInf (b > 0))"
| "d_mul NInf (Fin b) = (if b = 0 then NaN else signedInf (b < 0))"
| "d_mul PInf PInf = PInf"
| "d_mul NInf NInf = PInf"
| "d_mul PInf NInf = NInf"
| "d_mul NInf PInf = NInf"

fun d_div :: "dbl \<Rightarrow> dbl \<Rightarrow> dbl" where
  "d_div NaN y = NaN"
| "d_div x NaN = NaN"
| "d_div (Fin a) (Fin b) =
     (if b \<noteq> 0 then Fin (a / b) else if a = 0 then NaN else signedInf (a > 0))"
| "d_div (Fin a) y = Fin 0"
| "d_div PInf (Fin b) = signedInf (b \<ge> 0)"
| "d_div NInf (Fin b) = signedInf (b < 0)"
| "d_div x y = NaN"

fun d_less :: "dbl \<Rightarrow> dbl \<Rightarrow> bool" where
  "d_less NaN y = False"
| "d_less x NaN = False"
| "d_less (Fin a) (Fin b) = (a < b)"
| "d_less x NInf = False"
| "d_less PInf y = False"
| "d_less x PInf = True"
| "d_less NInf y = True"

text \<open>
  \<^verbatim>\<open>std::max(a, b)\<close> is \<^verbatim>\<open>(a < b) ? b : a\<close> and \<^verbatim>\<open>std::min(a, b)\<close> is \<^verbatim>\<open>(b < a) ? b : a\<close>.
\<close>

definition d_max :: "dbl \<Rightarrow> dbl \<Rightarrow> dbl" where
  "d_max a b = (if d_less a b then b else a)"

definition d_min :: "dbl \<Rightarrow> dbl \<Rightarrow> dbl" where
  "d_min a b = (if d_less b a then b else a)"

text \<open>\<^verbatim>\<open>std::log\<close> of a finite real: \<open>-\<infinity>\<close> at zero, NaN below.\<close>

definition d_log :: "real \<Rightarrow> dbl" where
  "d_log x = (if x > 0 then Fin (ln x) else if x = 0 then NInf else NaN)"

section \<open>Roll spread (src/alpha/microstructure.cpp, namespace microstructure)\<close>

text \<open>The loop \<^verbatim>\<open>for (i = 1; i < priceChanges.size(); ++i)\<close> carries \<open>(sumProduct, n)\<close>.\<close>

definition rollStep :: "real list \<Rightarrow> real \<times> nat \<Rightarrow> nat \<Rightarrow> real \<times> nat" where
  "rollStep priceChanges acc i =
     (fst acc + priceChanges ! i * priceChanges ! (i - 1), Suc (snd acc))"

definition computeRollSpread :: "real list \<Rightarrow> real" where
  "computeRollSpread priceChanges =
     (if length priceChanges < 2 then 0
      else
        let r = foldl (rollStep priceChanges) (0, 0) [1..<length priceChanges];
            sumProduct = fst r;
            n = snd r;
            covariance = (if n > 0 then sumProduct / real n else 0)
        in if covariance < 0 then 2 * sqrt (- covariance) else 0)"

text \<open>
  The lag-1 covariance of successive price changes that the specification and the source's
  comment name (\<open>Cov(\<Delta>P\<^sub>t, \<Delta>P\<^sub>t\<^sub>-\<^sub>1)\<close>): the mean, over the pairs of successive changes, of the
  product of their deviations from the mean of the series.  On a series whose mean is zero
  it is the mean of the plain products; scenario S3 gives it the value \<open>-1\<close>.
\<close>

definition lag1_covariance :: "real list \<Rightarrow> real" where
  "lag1_covariance xs =
     (let m = sum_list xs / real (length xs)
      in (\<Sum>i = 1..<length xs. (xs ! i - m) * (xs ! (i - 1) - m)) / real (length xs - 1))"

text \<open>What claim C6 says \<open>computeRollSpread\<close> returns on a series of at least two changes.\<close>

definition rollSpreadClaimed :: "real list \<Rightarrow> real" where
  "rollSpreadClaimed xs =
     (if lag1_covariance xs < 0 then 2 * sqrt (- lag1_covariance xs) else 0)"

section \<open>Order-flow components (include/alpha/indicators.h, src/alpha/orderflow.cpp)\<close>

record OFIResult =
  imbalance :: real
  bidPressure :: real
  askPressure :: real
  aggression :: real
  momentum :: real
  ofi_timestamp :: int

record OrderFlowImbalance =
  ofi_window :: nat
  buyVolumes :: "real list"
  sellVolumes :: "real list"
  buyPrices :: "real list"
  sellPrices :: "real list"
  ofi_timestamps :: "int list"

definition OrderFlowImbalance_new :: "nat \<Rightarrow> OrderFlowImbalance" where
  "OrderFlowImbalance_new w =
     \<lparr>ofi_window = w, buyVolumes = [], sellVolumes = [], buyPrices = [], sellPrices = [],
      ofi_timestamps = []\<rparr>"

text \<open>One pass of the body of the \<^verbatim>\<open>while\<close> loop of \<^verbatim>\<open>OrderFlowImbalance::onTrade\<close>.\<close>

definition evictOnce :: "OrderFlowImbalance \<Rightarrow> OrderFlowImbalance" where
  "evictOnce s =
     (let s1 = (if buyVolumes s \<noteq> []
                then s\<lparr>buyVolumes := tl (buyVolumes s), buyPrices := tl (buyPrices s)\<rparr>
                else s);
          s2 = (if sellVolumes s1 \<noteq> []
                then s1\<lparr>sellVolumes := tl (sellVolumes s1), sellPrices := tl (sellPrices s1)\<rparr>
                else s1)
      in if ofi_timestamps s2 \<noteq> [] then s2\<lparr>ofi_timestamps := tl (ofi_timestamps s2)\<rparr> else s2)"

function maintainWindow :: "OrderFlowImbalance \<Rightarrow> OrderFlowImbalance" where
  "maintainWindow s =
     (if length (buyVolumes s) + length (sellVolumes s) > ofi_window s
      then maintainWindow (evictOnce s) else s)"
  by pat_completeness auto
termination
  by (relation "measure (\<lambda>s. length (buyVolumes s) + length (sellVolumes s))")
     (auto simp: evictOnce_def Let_def)

definition OFI_onTrade :: "OrderFlowImbalance \<Rightarrow> real \<Rightarrow> real \<Rightarrow> bool \<Rightarrow> int \<Rightarrow> OrderFlowImbalance" where
  "OFI_onTrade s p v isBuy ts =
     (let s1 = (if isBuy
                then s\<lparr>buyVolumes := buyVolumes s @ [v], buyPrices := buyPrices s @ [p]\<rparr>
                else s\<lparr>sellVolumes := sellVolumes s @ [v], sellPrices := sellPrices s @ [p]\<rparr>);
          s2 = s1\<lparr>ofi_timestamps := ofi_timestamps s1 @ [ts]\<rparr>
      in maintainWindow s2)"

definition computeImbalance :: "OrderFlowImbalance \<Rightarrow> real" where
  "computeImbalance s =
     (let buyVol = sum_list (buyVolumes s);
          sellVol = sum_list (sellVolumes s);
          totalVol = buyVol + sellVol
      in if totalVol < 1 / 10 ^ 10 then 0 else (buyVol - sellVol) / totalVol)"

definition computeAggression :: "OrderFlowImbalance \<Rightarrow> real" where
  "computeAggression s =
     (let allVolumes = buyVolumes s @ sellVolumes s
      in if allVolumes = [] then 0
         else
           let sorted = sort allVolumes;
               median = sorted ! (length sorted div 2);
               threshold = median * (3 / 2);
               largeCount = length (filter (\<lambda>v. v > threshold) sorted)
           in real largeCount / real (length sorted))"

record momentumAcc =
  recentBuy :: real
  recentSell :: real
  oldBuy :: real
  oldSell :: real
  buyIdx :: nat
  sellIdx :: nat

definition momentumStep :: "OrderFlowImbalance \<Rightarrow> momentumAcc \<Rightarrow> nat \<Rightarrow> momentumAcc" where
  "momentumStep s a i =
     (let isRecent = (i \<ge> ofi_window s div 2);
          a1 = (if buyIdx a < length (buyVolumes s)
                then (if isRecent
                      then a\<lparr>recentBuy := recentBuy a + buyVolumes s ! buyIdx a\<rparr>
                      else a\<lparr>oldBuy := oldBuy a + buyVolumes s ! buyIdx a\<rparr>)
                     \<lparr>buyIdx := Suc (buyIdx a)\<rparr>
                else a)
      in if sellIdx a1 < length (sellVolumes s)
         then (if isRecent
               then a1\<lparr>recentSell := recentSell a1 + sellVolumes s ! sellIdx a1\<rparr>
               else a1\<lparr>oldSell := oldSell a1 + sellVolumes s ! sellIdx a1\<rparr>)
              \<lparr>sellIdx := Suc (sellIdx a1)\<rparr>
         else a1)"

definition computeMomentum :: "OrderFlowImbalance \<Rightarrow> real" where
  "computeMomentum s =
     (if length (ofi_timestamps s) < 2 then 0
      else
        let a = foldl (momentumStep s)
                  \<lparr>recentBuy = 0, recentSell = 0, oldBuy = 0, oldSell = 0, buyIdx = 0, sellIdx = 0\<rparr>
                  [0..<length (ofi_timestamps s)];
            recentImb = (if recentBuy a + recentSell a > 0
                         then (recentBuy a - recentSell a) / (recentBuy a + recentSell a) else 0);
            oldImb = (if oldBuy a + oldSell a > 0
                      then (oldBuy a - oldSell a) / (oldBuy a + oldSell a) else 0)
        in recentImb - oldImb)"

definition getOFI :: "OrderFlowImbalance \<Rightarrow> OFIResult option" where
  "getOFI s =
     (if buyVolumes s = [] \<and> sellVolumes s = [] then None
      else
        let buyVol = sum_list (buyVolumes s);
            sellVol = sum_list (sellVolumes s);
            totalVol = buyVol + sellVol
        in Some \<lparr>imbalance = computeImbalance s,
                 bidPressure = (if totalVol > 0 then buyVol / totalVol else 1 / 2),
                 askPressure = (if totalVol > 0 then sellVol / totalVol else 1 / 2),
                 aggression = computeAggression s,
                 momentum = computeMomentum s,
                 ofi_timestamp = (if ofi_timestamps s = [] then 0 else last (ofi_timestamps s))\<rparr>)"

record PressureResult =
  bidVolume :: real
  askVolume :: real
  imbalanceRatio :: real
  dominantSide :: real

record BidAskPressure =
  bap_window :: nat
  bidVolumes :: "real list"
  askVolumes :: "real list"

text \<open>\<^verbatim>\<open>while (d.size() > ofi_window) d.pop_front();\<close>\<close>

function trimFront :: "nat \<Rightarrow> real list \<Rightarrow> real list" where
  "trimFront w xs = (if length xs > w then trimFront w (tl xs) else xs)"
  by pat_completeness auto
termination
  by (relation "measure (\<lambda>(w, xs). length xs)") auto

definition BidAskPressure_onTrade :: "BidAskPressure \<Rightarrow> bool \<Rightarrow> real \<Rightarrow> BidAskPressure" where
  "BidAskPressure_onTrade s isBuy v =
     (let s1 = (if isBuy then s\<lparr>bidVolumes := bidVolumes s @ [v]\<rparr>
                else s\<lparr>askVolumes := askVolumes s @ [v]\<rparr>)
      in s1\<lparr>bidVolumes := trimFront (bap_window s1) (bidVolumes s1),
             askVolumes := trimFront (bap_window s1) (askVolumes s1)\<rparr>)"

definition getPressure :: "BidAskPressure \<Rightarrow> PressureResult" where
  "getPressure s =
     (let bidVol = sum_list (bidVolumes s);
          askVol = sum_list (askVolumes s);
          total = bidVol + askVol;
          ratio = (if total > 0 then (bidVol - askVol) / total else 0);
          dominant = (if ratio > 1 / 10 then 1 else if ratio < - (1 / 10) then - 1 else 0)
      in \<lparr>bidVolume = bidVol, askVolume = askVol, imbalanceRatio = ratio,
          dominantSide = dominant\<rparr>)"

record TradeAggression =
  ta_window :: nat
  aggressionScores :: "real list"

definition TradeAggression_onTrade :: "TradeAggression \<Rightarrow> real \<Rightarrow> real \<Rightarrow> bool \<Rightarrow> TradeAggression" where
  "TradeAggression_onTrade s v avgVolume isBuy =
     (let score0 = (if avgVolume > 0 then v / avgVolume - 1 else 0);
          score = (if isBuy then score0 else - score0);
          scores = aggressionScores s @ [score]
      in s\<lparr>aggressionScores := (if length scores > ta_window s then tl scores else scores)\<rparr>)"

definition getAggression :: "TradeAggression \<Rightarrow> real" where
  "getAggression s =
     (if aggressionScores s = [] then 0
      else sum_list (aggressionScores s) / real (length (aggressionScores s)))"

record VolumeDelta =
  cumulativeDelta :: real
  recentDeltas :: "real list"

definition RECENT_WINDOW :: nat where
  "RECENT_WINDOW = 50"

definition VolumeDelta_onTrade :: "VolumeDelta \<Rightarrow> real \<Rightarrow> bool \<Rightarrow> VolumeDelta" where
  "VolumeDelta_onTrade s v isBuy =
     (let delta = (if isBuy then v else - v);
          ds = recentDeltas s @ [delta]
      in \<lparr>cumulativeDelta = cumulativeDelta s + delta,
          recentDeltas = (if length ds > RECENT_WINDOW then tl ds else ds)\<rparr>)"

definition VolumeDelta_reset :: "VolumeDelta \<Rightarrow> VolumeDelta" where
  "VolumeDelta_reset s = \<lparr>cumulativeDelta = 0, recentDeltas = []\<rparr>"

record ToxicityScore =
  tox_toxicity :: real
  ofiComponent :: real
  pressureComponent :: real
  aggressionComponent :: real
  isToxic :: bool

record FlowToxicity =
  ft_threshold :: real
  ft_toxicity :: real
  ofiWeight :: real
  pressureWeight :: real
  aggressionWeight :: real

definition FlowToxicity_new :: "real \<Rightarrow> FlowToxicity" where
  "FlowToxicity_new th =
     \<lparr>ft_threshold = th, ft_toxicity = 0, ofiWeight = 4 / 10, pressureWeight = 3 / 10,
      aggressionWeight = 3 / 10\<rparr>"

definition FlowToxicity_update :: "FlowToxicity \<Rightarrow> real \<Rightarrow> real \<Rightarrow> real \<Rightarrow> FlowToxicity" where
  "FlowToxicity_update s ofi pressure aggr =
     (let ofiNorm = (\<bar>ofi\<bar> + 1) / 2;
          pressureNorm = (\<bar>pressure\<bar> + 1) / 2;
          aggressionNorm = min 1 \<bar>aggr\<bar>
      in s\<lparr>ft_toxicity := ofiWeight s * ofiNorm + pressureWeight s * pressureNorm
                          + aggressionWeight s * aggressionNorm\<rparr>)"

definition getScore :: "FlowToxicity \<Rightarrow> ToxicityScore" where
  "getScore s =
     \<lparr>tox_toxicity = ft_toxicity s,
      ofiComponent = ofiWeight s * ft_toxicity s,
      pressureComponent = pressureWeight s * ft_toxicity s,
      aggressionComponent = aggressionWeight s * ft_toxicity s,
      isToxic = (ft_toxicity s > ft_threshold s)\<rparr>"

record OrderFlowSignal =
  sig_ofi :: real
  sig_bidPressure :: real
  sig_askPressure :: real
  sig_aggression :: real
  sig_volumeDelta :: real
  sig_toxicity :: real
  sig_isToxicFlow :: bool
  sig_flowDirection :: string
  sig_timestamp :: int

record OrderFlowEngine =
  eng_ofi :: OrderFlowImbalance
  eng_pressure :: BidAskPressure
  eng_aggression :: TradeAggression
  eng_volumeDelta :: VolumeDelta
  eng_toxicity :: FlowToxicity
  avgVolume :: real
  tickCount :: nat

text \<open>
  The constructor: the members are default-constructed with the default arguments of the
  header (windows 100, 50 and 30, toxicity threshold 0.7).
\<close>

definition OrderFlowEngine_new :: OrderFlowEngine where
  "OrderFlowEngine_new =
     \<lparr>eng_ofi = OrderFlowImbalance_new 100,
      eng_pressure = \<lparr>bap_window = 50, bidVolumes = [], askVolumes = []\<rparr>,
      eng_aggression = \<lparr>ta_window = 30, aggressionScores = []\<rparr>,
      eng_volumeDelta = \<lparr>cumulativeDelta = 0, recentDeltas = []\<rparr>,
      eng_toxicity = FlowToxicity_new (7 / 10),
      avgVolume = 0,
      tickCount = 0\<rparr>"

definition determineFlowDirection :: "real \<Rightarrow> real \<Rightarrow> string" where
  "determineFlowDirection ofi pressure =
     (let combined = (ofi + pressure) / 2
      in if combined > 2 / 10 then ''BUY_DOMINANT''
         else if combined < - (2 / 10) then ''SELL_DOMINANT''
         else ''NEUTRAL'')"

definition OrderFlowEngine_onTick ::
  "OrderFlowEngine \<Rightarrow> MarketTick \<Rightarrow> bool \<Rightarrow> OrderFlowEngine \<times> OrderFlowSignal option" where
  "OrderFlowEngine_onTick e tick isBuy =
     (let n = Suc (tickCount e);
          avg = (real (n - 1) * avgVolume e + volume tick) / real n;
          ofiS = OFI_onTrade (eng_ofi e) (price tick) (volume tick) isBuy (timestamp tick);
          p = BidAskPressure_onTrade (eng_pressure e) isBuy (volume tick);
          a = TradeAggression_onTrade (eng_aggression e) (volume tick) avg isBuy;
          d = VolumeDelta_onTrade (eng_volumeDelta e) (volume tick) isBuy;
          e1 = e\<lparr>tickCount := n, avgVolume := avg, eng_ofi := ofiS, eng_pressure := p,
                 eng_aggression := a, eng_volumeDelta := d\<rparr>
      in case getOFI ofiS of
           None \<Rightarrow> (e1, None)
         | Some ofiResult \<Rightarrow>
             let pressureResult = getPressure p;
                 aggrScore = getAggression a;
                 t = FlowToxicity_update (eng_toxicity e1) (imbalance ofiResult)
                       (imbalanceRatio pressureResult) aggrScore;
                 toxScore = getScore t;
                 flowDir = determineFlowDirection (imbalance ofiResult)
                             (imbalanceRatio pressureResult)
             in (e1\<lparr>eng_toxicity := t\<rparr>,
                 Some \<lparr>sig_ofi = imbalance ofiResult,
                       sig_bidPressure = bidPressure ofiResult,
                       sig_askPressure = askPressure ofiResult,
                       sig_aggression = aggrScore,
                       sig_volumeDelta = cumulativeDelta d,
                       sig_toxicity = tox_toxicity toxScore,
                       sig_isToxicFlow = isToxic toxScore,
                       sig_flowDirection = flowDir,
                       sig_timestamp = timestamp tick\<rparr>))"

definition OrderFlowEngine_reset :: "OrderFlowEngine \<Rightarrow> OrderFlowEngine" where
  "OrderFlowEngine_reset e =
     e\<lparr>eng_volumeDelta := VolumeDelta_reset (eng_volumeDelta e), avgVolume := 0, tickCount := 0\<rparr>"

text \<open>
  The order-flow branch of \<^verbatim>\<open>ProductionAlphaSystem::processMarketTick\<close> (src/main.cpp): the
  composer derives \<open>isBuy\<close> from its own \<open>lastPrice_\<close>, feeds the engine and remembers the
  price.  \<open>replayFlow\<close> runs it over a tick sequence and collects the emitted signals.
\<close>

fun replayFlow ::
  "OrderFlowEngine \<Rightarrow> real \<Rightarrow> MarketTick list \<Rightarrow> OrderFlowSignal option list \<times> OrderFlowEngine" where
  "replayFlow e lastPrice [] = ([], e)"
| "replayFlow e lastPrice (tick # ticks) =
     (let isBuy = (price tick > lastPrice);
          r = OrderFlowEngine_onTick e tick isBuy;
          rest = replayFlow (fst r) (price tick) ticks
      in (snd r # fst rest, snd rest))"

text \<open>
  The two-tick stream used to compare a first run with a replay after \<open>reset()\<close>: the first
  tick is a buy (its price exceeds the composer's initial \<open>lastPrice_ = 0\<close>), the second a
  sell.
\<close>

definition resetTicks :: "MarketTick list" where
  "resetTicks = [\<lparr>symbol = ''BTC'', price = 100, volume = 1, timestamp = 0\<rparr>,
                 \<lparr>symbol = ''BTC'', price = 99, volume = 3, timestamp = 1\<rparr>]"

section \<open>Candle aggregator (include/feeds/candle\_aggregator.h and its implementation)\<close>

text \<open>
  A \<^verbatim>\<open>system_clock::time_point\<close> is the integer count of nanoseconds since the epoch.
\<close>

record Candle =
  c_open :: real
  c_high :: real
  c_low :: real
  c_close :: real
  c_volume :: real
  startTime :: int
  endTime :: int

text \<open>
  The callback member \<^verbatim>\<open>onCandleClosed\<close> is represented by \<open>hasCallback\<close> (whether one is
  registered) and by the candle that \<open>onTick\<close> returns when it invokes the callback.
\<close>

record CandleAggregator =
  intervalSeconds :: int
  hasCandle :: bool
  candleStart :: int
  currentCandle :: Candle
  hasCallback :: bool

text \<open>\<^verbatim>\<open>duration_cast<seconds>\<close> truncates toward zero.\<close>

definition duration_cast_seconds :: "int \<Rightarrow> int" where
  "duration_cast_seconds d = d sdiv 1000000000"

definition freshCandle :: "real \<Rightarrow> real \<Rightarrow> int \<Rightarrow> Candle" where
  "freshCandle p v ts =
     \<lparr>c_open = p, c_high = p, c_low = p, c_close = p, c_volume = v,
      startTime = ts, endTime = ts\<rparr>"

text \<open>
  The constructor sets the interval and \<open>hasCandle\<close>; \<open>candleStart\<close> is the epoch, no callback
  is registered, and the candle (never read before the first tick writes it) is taken as
  all zero.
\<close>

definition CandleAggregator_new :: "int \<Rightarrow> CandleAggregator" where
  "CandleAggregator_new i =
     \<lparr>intervalSeconds = i, hasCandle = False, candleStart = 0,
      currentCandle = freshCandle 0 0 0, hasCallback = False\<rparr>"

definition setOnCandleClosed :: "CandleAggregator \<Rightarrow> CandleAggregator" where
  "setOnCandleClosed agg = agg\<lparr>hasCallback := True\<rparr>"

definition CandleAggregator_onTick ::
  "CandleAggregator \<Rightarrow> real \<Rightarrow> real \<Rightarrow> int \<Rightarrow> CandleAggregator \<times> Candle option" where
  "CandleAggregator_onTick agg p v ts =
     (if \<not> hasCandle agg then
        (agg\<lparr>hasCandle := True, candleStart := ts, currentCandle := freshCandle p v ts\<rparr>, None)
      else
        let elapsed = duration_cast_seconds (ts - candleStart agg);
            c = currentCandle agg;
            c1 = c\<lparr>c_high := max (c_high c) p, c_low := min (c_low c) p, c_close := p,
                   c_volume := c_volume c + v, endTime := ts\<rparr>
        in if elapsed \<ge> intervalSeconds agg then
             (agg\<lparr>candleStart := ts, currentCandle := freshCandle p 0 ts\<rparr>,
              if hasCallback agg then Some c1 else None)
           else (agg\<lparr>currentCandle := c1\<rparr>, None))"

section \<open>Microstructure analyzer (include/alpha/microstructure.h, src/alpha/microstructure.cpp)\<close>

datatype TradeSide = BUY | SELL | UNKNOWN

record TradeClassification =
  side :: TradeSide
  signedVolume :: real

text \<open>
  \<open>vpin\<close> and \<open>toxicity\<close> are carried as \<open>dbl\<close>: the division by the bucket size can
  leave the finite range.
\<close>

record VPINMetrics =
  vpin :: dbl
  toxicity :: dbl
  buyVolume :: real
  sellVolume :: real
  vpin_imbalance :: real

record MicrostructureAnalyzer =
  bucketSize :: nat
  vpinWindow :: nat
  impactWindow :: nat
  tradeHistory :: "MarketTick list"
  classifiedTrades :: "TradeClassification list"
  volumeBuckets :: "real list"
  currentBucketVolume :: real
  currentBucketBuyVolume :: real
  isCurrentBucketBuy :: bool
  priceChanges :: "real list"
  signedVolumes :: "real list"
  lastPrice :: real
  lastMidPrice :: real
  cumulativeVolume :: real
  cumulativeBuyVolume :: real
  cumulativeSellVolume :: real

definition MicrostructureAnalyzer_new :: "nat \<Rightarrow> nat \<Rightarrow> nat \<Rightarrow> MicrostructureAnalyzer" where
  "MicrostructureAnalyzer_new bs vw iw =
     \<lparr>bucketSize = bs, vpinWindow = vw, impactWindow = iw, tradeHistory = [],
      classifiedTrades = [], volumeBuckets = [], currentBucketVolume = 0,
      currentBucketBuyVolume = 0, isCurrentBucketBuy = True, priceChanges = [],
      signedVolumes = [], lastPrice = 0, lastMidPrice = 0, cumulativeVolume = 0,
      cumulativeBuyVolume = 0, cumulativeSellVolume = 0\<rparr>"

definition inferTradeSide :: "MicrostructureAnalyzer \<Rightarrow> real \<Rightarrow> TradeSide" where
  "inferTradeSide a p =
     (if lastPrice a \<le> 0 then UNKNOWN
      else if p > lastPrice a then BUY
      else if p < lastPrice a then SELL
      else if classifiedTrades a = [] then UNKNOWN
      else side (last (classifiedTrades a)))"

definition classifyTrade ::
  "MicrostructureAnalyzer \<Rightarrow> real \<Rightarrow> real \<Rightarrow> real \<Rightarrow> real \<Rightarrow> TradeClassification" where
  "classifyTrade a p v bidPrice askPrice =
     (if bidPrice > 0 \<and> askPrice > 0 then
        (let midPrice = (bidPrice + askPrice) / 2
         in if p > midPrice then \<lparr>side = BUY, signedVolume = v\<rparr>
            else if p < midPrice then \<lparr>side = SELL, signedVolume = - v\<rparr>
            else (let sd = inferTradeSide a p
                  in \<lparr>side = sd, signedVolume = (if sd = BUY then v else - v)\<rparr>))
      else
        (let sd = inferTradeSide a p
         in \<lparr>side = sd, signedVolume = (if sd = BUY then v else - v)\<rparr>))"

text \<open>The test \<^verbatim>\<open>currentBucketVolume_ >= bucketSize_\<close> after a trade has been added.\<close>

definition bucketFull :: "MicrostructureAnalyzer \<Rightarrow> TradeClassification \<Rightarrow> bool" where
  "bucketFull a trade \<longleftrightarrow> currentBucketVolume a + \<bar>signedVolume trade\<bar> \<ge> real (bucketSize a)"

definition updateVPINBuckets ::
  "MicrostructureAnalyzer \<Rightarrow> TradeClassification \<Rightarrow> MicrostructureAnalyzer" where
  "updateVPINBuckets a trade =
     (let vol = \<bar>signedVolume trade\<bar>;
          a1 = a\<lparr>currentBucketVolume := currentBucketVolume a + vol\<rparr>;
          a2 = (if side trade = BUY
                then a1\<lparr>currentBucketBuyVolume := currentBucketBuyVolume a1 + vol\<rparr> else a1)
      in if currentBucketVolume a2 \<ge> real (bucketSize a2) then
           (let bucketImbalance = \<bar>2 * currentBucketBuyVolume a2 - currentBucketVolume a2\<bar>;
                bs = volumeBuckets a2 @ [bucketImbalance]
            in a2\<lparr>volumeBuckets := (if length bs > vpinWindow a2 then tl bs else bs),
                  currentBucketVolume := 0,
                  currentBucketBuyVolume := 0\<rparr>)
         else a2)"

definition updatePriceImpact ::
  "MicrostructureAnalyzer \<Rightarrow> real \<Rightarrow> real \<Rightarrow> MicrostructureAnalyzer" where
  "updatePriceImpact a priceChange sv =
     (let pcs = priceChanges a @ [priceChange];
          svs = signedVolumes a @ [sv]
      in if length pcs > impactWindow a
         then a\<lparr>priceChanges := tl pcs, signedVolumes := tl svs\<rparr>
         else a\<lparr>priceChanges := pcs, signedVolumes := svs\<rparr>)"

definition MicrostructureAnalyzer_onTick ::
  "MicrostructureAnalyzer \<Rightarrow> MarketTick \<Rightarrow> MicrostructureAnalyzer" where
  "MicrostructureAnalyzer_onTick a tick =
     (let classification = classifyTrade a (price tick) (volume tick) 0 0;
          th = tradeHistory a @ [tick];
          ct = classifiedTrades a @ [classification];
          a1 = a\<lparr>tradeHistory := (if length th > 1000 then tl th else th),
                 classifiedTrades := (if length ct > 1000 then tl ct else ct),
                 cumulativeVolume := cumulativeVolume a + volume tick\<rparr>;
          a2 = (if side classification = BUY
                then a1\<lparr>cumulativeBuyVolume := cumulativeBuyVolume a1 + volume tick\<rparr>
                else if side classification = SELL
                then a1\<lparr>cumulativeSellVolume := cumulativeSellVolume a1 + volume tick\<rparr>
                else a1);
          a3 = updateVPINBuckets a2 classification;
          a4 = (if lastPrice a3 > 0
                then updatePriceImpact a3 (price tick - lastPrice a3) (signedVolume classification)
                else a3)
      in a4\<lparr>lastPrice := price tick\<rparr>)"

definition MicrostructureAnalyzer_reset :: "MicrostructureAnalyzer \<Rightarrow> MicrostructureAnalyzer" where
  "MicrostructureAnalyzer_reset a =
     a\<lparr>tradeHistory := [], classifiedTrades := [], volumeBuckets := [], priceChanges := [],
       signedVolumes := [], currentBucketVolume := 0, currentBucketBuyVolume := 0,
       isCurrentBucketBuy := True, lastPrice := 0, lastMidPrice := 0, cumulativeVolume := 0,
       cumulativeBuyVolume := 0, cumulativeSellVolume := 0\<rparr>"

text \<open>
  \<^verbatim>\<open>bucketSize_\<close> is a \<^verbatim>\<open>size_t\<close> converted to \<^verbatim>\<open>double\<close> for the division; nothing keeps
  it away from 0, so the quotient is taken in \<open>dbl\<close>, and the clamp is the source's
  \<^verbatim>\<open>std::min(std::max(vpin, 0.0), 1.0)\<close>.
\<close>

definition computeVPIN :: "MicrostructureAnalyzer \<Rightarrow> dbl" where
  "computeVPIN a =
     (if length (volumeBuckets a) < 2 then Fin 0
      else
        let sumImbalance = sum_list (volumeBuckets a);
            avgImbalance = sumImbalance / real (length (volumeBuckets a));
            v = d_div (Fin avgImbalance) (Fin (real (bucketSize a)))
        in d_min (d_max v (Fin 0)) (Fin 1))"

text \<open>The loop of \<^verbatim>\<open>getVPIN\<close> over the last \<open>min(size, 50)\<close> classified trades carries
  \<open>(recentBuy, recentSell)\<close>.\<close>

definition recentStep :: "real \<times> real \<Rightarrow> TradeClassification \<Rightarrow> real \<times> real" where
  "recentStep acc c =
     (if side c = BUY then (fst acc + signedVolume c, snd acc)
      else if side c = SELL then (fst acc, snd acc + \<bar>signedVolume c\<bar>)
      else acc)"

text \<open>
  The recent volumes and the imbalance are sums and a guarded quotient of finite values and
  are kept as reals: a sum of volumes that overflows the double range is outside this model.
\<close>

definition getVPIN :: "MicrostructureAnalyzer \<Rightarrow> VPINMetrics" where
  "getVPIN a =
     (let v = computeVPIN a;
          n = length (classifiedTrades a);
          w = min n 50;
          acc = foldl recentStep (0, 0) (drop (n - w) (classifiedTrades a));
          recentBuy = fst acc;
          recentSell = snd acc;
          totalVol = recentBuy + recentSell;
          imb = (if totalVol > 0 then \<bar>recentBuy - recentSell\<bar> / totalVol else 0)
      in \<lparr>vpin = v, toxicity = d_mul v (Fin imb), buyVolume = recentBuy,
          sellVolume = recentSell, vpin_imbalance = imb\<rparr>)"

text \<open>
  The number of volume buckets completed while a tick sequence is processed: the number of
  ticks at which the bucket-full test of \<open>updateVPINBuckets\<close> succeeds.
\<close>

fun completedBuckets :: "MicrostructureAnalyzer \<Rightarrow> MarketTick list \<Rightarrow> nat" where
  "completedBuckets a [] = 0"
| "completedBuckets a (tick # ticks) =
     (if bucketFull a (classifyTrade a (price tick) (volume tick) 0 0) then 1 else 0)
     + completedBuckets (MicrostructureAnalyzer_onTick a tick) ticks"

definition validTick :: "MarketTick \<Rightarrow> bool" where
  "validTick tick \<longleftrightarrow> price tick > 0 \<and> volume tick \<ge> 0"

section \<open>Hurst exponent (include/alpha/regime.h, namespace regime)\<close>

text \<open>
  The first loop of \<open>hurstExponent\<close>: the logarithm is taken only of a quotient of two
  positive prices, so each log return is finite.
\<close>

definition logReturnsOf :: "real list \<Rightarrow> real list" where
  "logReturnsOf prices =
     concat (map (\<lambda>i. if prices ! i > 0 \<and> prices ! (i - 1) > 0
                       then [ln (prices ! i / prices ! (i - 1))] else [])
                 [1..<length prices])"

fun cumulativeDeviation :: "real \<Rightarrow> real \<Rightarrow> real list \<Rightarrow> real list" where
  "cumulativeDeviation m cumSum [] = []"
| "cumulativeDeviation m cumSum (x # xs) =
     (cumSum + (x - m)) # cumulativeDeviation m (cumSum + (x - m)) xs"

definition max_element :: "real list \<Rightarrow> real" where
  "max_element xs = foldl max (hd xs) (tl xs)"

definition min_element :: "real list \<Rightarrow> real" where
  "min_element xs = foldl min (hd xs) (tl xs)"

text \<open>
  What one segment adds to \<open>avgRS\<close>: \<open>R / S\<close> when \<open>S > 1e-10\<close>, nothing otherwise.
\<close>

definition segmentRS :: "real list \<Rightarrow> nat \<Rightarrow> nat \<Rightarrow> real" where
  "segmentRS logReturns lag seg =
     (let start = seg * lag;
          segment = take lag (drop start logReturns);
          m = sum_list segment / real lag;
          cumDev = cumulativeDeviation m 0 segment;
          R = max_element cumDev - min_element cumDev;
          variance = foldl (\<lambda>acc x. acc + (x - m) * (x - m)) 0 segment;
          S = sqrt (variance / real lag)
      in if S > 1 / 10 ^ 10 then R / S else 0)"

text \<open>
  The body of the loop over lags: the point \<open>(log lag, log avgRS)\<close> pushed onto
  \<open>logLags\<close> and \<open>logRS\<close> when \<open>numSegments > 0\<close>.
\<close>

definition lagPoint :: "real list \<Rightarrow> nat \<Rightarrow> (real \<times> dbl) list" where
  "lagPoint logReturns lag =
     (let numSegments = length logReturns div lag;
          total = foldl (\<lambda>acc seg. acc + segmentRS logReturns lag seg) 0 [0..<numSegments]
      in if numSegments > 0
         then [(ln (real lag), d_log (total / real numSegments))]
         else [])"

definition hurstExponent :: "real list \<Rightarrow> nat \<Rightarrow> dbl" where
  "hurstExponent prices maxLag =
     (if length prices < maxLag * 2 then Fin (1 / 2)
      else
        let logReturns = logReturnsOf prices
        in if length logReturns < maxLag then Fin (1 / 2)
           else
             let points = concat (map (lagPoint logReturns)
                            [2..<Suc (min maxLag (length logReturns div 2))]);
                 logLags = map fst points;
                 logRS = map snd points
             in if length logLags < 3 then Fin (1 / 2)
                else
                  let numLags = real (length logLags);
                      sumX = sum_list logLags;
                      sumY = foldl d_add (Fin 0) logRS;
                      sumXY = foldl (\<lambda>acc p. d_add acc (d_mul (Fin (fst p)) (snd p)))
                                (Fin 0) points;
                      sumX2 = foldl (\<lambda>acc x. acc + x * x) 0 logLags;
                      H = d_div (d_sub (d_mul (Fin numLags) sumXY) (d_mul (Fin sumX) sumY))
                                (Fin (numLags * sumX2 - sumX * sumX))
                  in d_min (d_max H (Fin 0)) (Fin 1))"

text \<open>Nine equal prices.\<close>

definition flatPrices :: "real list" where
  "flatPrices = [100, 100, 100, 100, 100, 100, 100, 100, 100]"

section \<open>Position and P\&L tracker (include/backtest/pnl.h, src/backtest/pnl.cpp)\<close>

datatype CostMethod = FIFO | LIFO | AVERAGE

record Position =
  pos_symbol :: string
  quantity :: real
  avgEntryPrice :: real
  currentPrice :: real
  unrealizedPnL :: real
  realizedPnL :: real
  totalCost :: real

text \<open>
  A transaction carries the wall-clock time of the call in the source; that field is left
  out here, nothing reads it.
\<close>

record Transaction =
  txn_symbol :: string
  txn_quantity :: real
  txn_price :: real
  txn_type :: string

record PnLTracker =
  costMethod :: CostMethod
  initialCash :: real
  cash :: real
  positions :: "string \<rightharpoonup> Position"
  trk_realizedPnL :: "string \<rightharpoonup> real"
  transactions :: "Transaction list"

definition PnLTracker_new :: "real \<Rightarrow> CostMethod \<Rightarrow> PnLTracker" where
  "PnLTracker_new c m =
     \<lparr>costMethod = m, initialCash = c, cash = c, positions = Map.empty,
      trk_realizedPnL = Map.empty, transactions = []\<rparr>"

text \<open>The dust threshold \<^verbatim>\<open>1e-8\<close> of the source.\<close>

definition dust :: real where
  "dust = 1 / 10 ^ 8"

definition updatePositionCost :: "CostMethod \<Rightarrow> Position \<Rightarrow> real \<Rightarrow> real \<Rightarrow> Position" where
  "updatePositionCost m pos q p =
     (if m = AVERAGE then
        (let totalQuantity = quantity pos + q;
             avg = (avgEntryPrice pos * \<bar>quantity pos\<bar> + p * \<bar>q\<bar>) / \<bar>totalQuantity\<bar>
         in pos\<lparr>avgEntryPrice := avg, quantity := totalQuantity,
                totalCost := \<bar>totalQuantity\<bar> * avg\<rparr>)
      else if m = FIFO \<or> m = LIFO then
        (let totalQuantity = quantity pos + q;
             avg = (avgEntryPrice pos * \<bar>quantity pos\<bar> + p * \<bar>q\<bar>) / \<bar>totalQuantity\<bar>
         in pos\<lparr>avgEntryPrice := avg, quantity := totalQuantity,
                totalCost := \<bar>totalQuantity\<bar> * avg\<rparr>)
      else pos)"

text \<open>\<^verbatim>\<open>realizedPnL_[symbol] += pnl\<close>: \<^verbatim>\<open>operator[]\<close> inserts 0 for a missing key.\<close>

definition addRealized :: "(string \<rightharpoonup> real) \<Rightarrow> string \<Rightarrow> real \<Rightarrow> (string \<rightharpoonup> real)" where
  "addRealized m sy x = m(sy \<mapsto> (case m sy of None \<Rightarrow> 0 | Some v \<Rightarrow> v) + x)"

definition addPosition :: "PnLTracker \<Rightarrow> string \<Rightarrow> real \<Rightarrow> real \<Rightarrow> PnLTracker" where
  "addPosition t sy q p =
     (let t1 =
        (case positions t sy of
           None \<Rightarrow>
             t\<lparr>positions := (positions t)(sy \<mapsto>
                  \<lparr>pos_symbol = sy, quantity = q, avgEntryPrice = p, currentPrice = p,
                   unrealizedPnL = 0, realizedPnL = 0, totalCost = \<bar>q\<bar> * p\<rparr>)\<rparr>
         | Some pos \<Rightarrow>
             if (quantity pos > 0 \<and> q > 0) \<or> (quantity pos < 0 \<and> q < 0) then
               t\<lparr>positions := (positions t)(sy \<mapsto> updatePositionCost (costMethod t) pos q p)\<rparr>
             else
               (let closeQuantity = min \<bar>q\<bar> \<bar>quantity pos\<bar>;
                    pl = (p - avgEntryPrice pos) * closeQuantity
                           * (if quantity pos > 0 then 1 else - 1);
                    pos1 = pos\<lparr>realizedPnL := realizedPnL pos + pl,
                               quantity := quantity pos + q\<rparr>
                in t\<lparr>trk_realizedPnL := addRealized (trk_realizedPnL t) sy pl,
                      positions :=
                        (if \<bar>quantity pos1\<bar> < dust then (positions t)(sy := None)
                         else (positions t)(sy \<mapsto>
                                pos1\<lparr>avgEntryPrice := p,
                                      totalCost := \<bar>quantity pos1\<bar> * p\<rparr>))\<rparr>))
      in t1\<lparr>cash := cash t1 - q * p,
            transactions := transactions t1 @
              [\<lparr>txn_symbol = sy, txn_quantity = q, txn_price = p,
                txn_type = (if q > 0 then ''BUY'' else ''SELL'')\<rparr>]\<rparr>)"

definition closePosition :: "PnLTracker \<Rightarrow> string \<Rightarrow> real \<Rightarrow> PnLTracker" where
  "closePosition t sy p =
     (case positions t sy of
        None \<Rightarrow> t
      | Some pos \<Rightarrow>
          (let pl = (p - avgEntryPrice pos) * quantity pos
           in t\<lparr>trk_realizedPnL := addRealized (trk_realizedPnL t) sy pl,
                 cash := cash t + quantity pos * p,
                 transactions := transactions t @
                   [\<lparr>txn_symbol = sy, txn_quantity = - quantity pos, txn_price = p,
                     txn_type = ''CLOSE''\<rparr>],
                 positions := (positions t)(sy := None)\<rparr>))"

definition closePartialPosition :: "PnLTracker \<Rightarrow> string \<Rightarrow> real \<Rightarrow> real \<Rightarrow> PnLTracker" where
  "closePartialPosition t sy q p =
     (case positions t sy of
        None \<Rightarrow> t
      | Some pos \<Rightarrow>
          (let closeQty = min \<bar>q\<bar> \<bar>quantity pos\<bar>
           in if (quantity pos > 0 \<and> q < 0) \<or> (quantity pos < 0 \<and> q > 0) then
                (let pl = (p - avgEntryPrice pos) * closeQty
                            * (if quantity pos > 0 then 1 else - 1);
                     pos1 = pos\<lparr>realizedPnL := realizedPnL pos + pl,
                                quantity := quantity pos + q\<rparr>
                 in t\<lparr>trk_realizedPnL := addRealized (trk_realizedPnL t) sy pl,
                       cash := cash t + closeQty * p * (if q < 0 then - 1 else 1),
                       positions :=
                         (if \<bar>quantity pos1\<bar> < dust then (positions t)(sy := None)
                          else (positions t)(sy \<mapsto> pos1)),
                       transactions := transactions t @
                         [\<lparr>txn_symbol = sy, txn_quantity = q, txn_price = p,
                           txn_type = ''PARTIAL_CLOSE''\<rparr>]\<rparr>)
              else t))"

definition updatePrice :: "PnLTracker \<Rightarrow> string \<Rightarrow> real \<Rightarrow> PnLTracker" where
  "updatePrice t sy p =
     (case positions t sy of
        None \<Rightarrow> t
      | Some pos \<Rightarrow>
          t\<lparr>positions := (positions t)(sy \<mapsto>
               pos\<lparr>currentPrice := p,
                    unrealizedPnL := (p - avgEntryPrice pos) * quantity pos\<rparr>)\<rparr>)"

definition PnLTracker_reset :: "PnLTracker \<Rightarrow> PnLTracker" where
  "PnLTracker_reset t =
     t\<lparr>positions := Map.empty, trk_realizedPnL := Map.empty, transactions := [],
       cash := initialCash t\<rparr>"

text \<open>The four mutating operations of the tracker as values, and a run of them.\<close>

datatype pnl_op =
    AddPosition string real real
  | ClosePosition string real
  | ClosePartialPosition string real real
  | UpdatePrice string real

fun applyOp :: "PnLTracker \<Rightarrow> pnl_op \<Rightarrow> PnLTracker" where
  "applyOp t (AddPosition sy q p) = addPosition t sy q p"
| "applyOp t (ClosePosition sy p) = closePosition t sy p"
| "applyOp t (ClosePartialPosition sy q p) = closePartialPosition t sy q p"
| "applyOp t (UpdatePrice sy p) = updatePrice t sy p"

text \<open>The invariant of claim C9: no stored position is dust.\<close>

definition noDust :: "PnLTracker \<Rightarrow> bool" where
  "noDust t \<longleftrightarrow> (\<forall>sy pos. positions t sy = Some pos \<longrightarrow> dust \<le> \<bar>quantity pos\<bar>)"

text \<open>
  Along a run of operations, every \<open>addPosition\<close> that opens a position (none is stored for
  its symbol when it is called) has a quantity of absolute value at least \<open>1e-8\<close>.
\<close>

fun opensSized :: "PnLTracker \<Rightarrow> pnl_op list \<Rightarrow> bool" where
  "opensSized t [] = True"
| "opensSized t (AddPosition sy q p # ops) =
     ((positions t sy = None \<longrightarrow> dust \<le> \<bar>q\<bar>) \<and> opensSized (addPosition t sy q p) ops)"
| "opensSized t (ClosePosition sy p # ops) = opensSized (closePosition t sy p) ops"
| "opensSized t (ClosePartialPosition sy q p # ops) =
     opensSized (closePartialPosition t sy q p) ops"
| "opensSized t (UpdatePrice sy p # ops) = opensSized (updatePrice t sy p) ops"

text \<open>
  A run whose later \<open>addPosition\<close> calls are smaller than \<open>1e-8\<close>: the second brings the
  first position below the threshold, the fourth adds to an open position.
\<close>

definition dustyOps :: "pnl_op list" where
  "dustyOps = [AddPosition ''BTC'' (1 / 10 ^ 8) 100, AddPosition ''BTC'' (- (5 / 10 ^ 9)) 100,
               AddPosition ''ETH'' 1 50, AddPosition ''ETH'' (3 / 10 ^ 9) 50]"

section \<open>Performance metrics (src/backtest/sharpe.cpp)\<close>

definition mean :: "real list \<Rightarrow> real" where
  "mean data = (if data = [] then 0 else sum_list data / real (length data))"

definition stddev :: "real list \<Rightarrow> real" where
  "stddev data =
     (if length data < 2 then 0
      else
        let m = mean data;
            variance = foldl (\<lambda>acc v. acc + (v - m) * (v - m)) 0 data
        in sqrt (variance / real (length data - 1)))"

definition computeSharpeRatio :: "real list \<Rightarrow> real \<Rightarrow> real \<Rightarrow> real" where
  "computeSharpeRatio returns riskFreeRate periodsPerYear =
     (if length returns < 2 then 0
      else
        let meanReturn = mean returns;
            sd = stddev returns
        in if sd < 1 / 10 ^ 10 then 0
           else
             let dailyRiskFree = riskFreeRate / periodsPerYear;
                 excessReturn = meanReturn - dailyRiskFree
             in (excessReturn / sd) * sqrt periodsPerYear)"

text \<open>The drawdown loop carries \<open>(peak, maxDD)\<close>.\<close>

definition drawdownStep :: "real \<times> real \<Rightarrow> real \<Rightarrow> real \<times> real" where
  "drawdownStep acc equity =
     (let peak = max (fst acc) equity;
          drawdown = peak - equity
      in (peak, max (snd acc) drawdown))"

definition computeMaxDrawdown :: "real list \<Rightarrow> real" where
  "computeMaxDrawdown equityCurve =
     (if equityCurve = [] then 0
      else snd (foldl drawdownStep (equityCurve ! 0, 0) equityCurve))"





section \<open>Backtester (backtest/backtester.h, src/backtest/backtester.cpp)\<close>

record BacktestConfig =
  initialCapital :: real
  commissionRate :: real
  slippageBps :: real
  latencyMs :: real
  maxPositionSize :: real
  enableShortSelling :: bool
  enableMarginTrading :: bool
  marginRequirement :: real

text \<open>The default member initialisers of \<^verbatim>\<open>struct BacktestConfig\<close>.\<close>

definition BacktestConfig_default :: BacktestConfig where
  "BacktestConfig_default =
     \<lparr>initialCapital = 10000, commissionRate = 1 / 1000, slippageBps = 2, latencyMs = 10,
      maxPositionSize = 1 / 2, enableShortSelling = True, enableMarginTrading = False,
      marginRequirement = 1 / 2\<rparr>"

record Trade =
  tr_symbol :: string
  tr_timestamp :: int
  entryPrice :: real
  exitPrice :: real
  tr_quantity :: real
  isLong :: bool
  pnl :: real
  commission :: real
  slippage :: real
  entryReason :: string
  exitReason :: string

record BacktestResult =
  trades :: "Trade list"
  totalPnL :: real
  totalReturn :: real
  sharpeRatio :: real
  maxDrawdown :: real
  winRate :: real
  numTrades :: int
  numWinningTrades :: int
  numLosingTrades :: int
  avgWin :: real
  avgLoss :: real
  profitFactor :: real
  expectancy :: real
  equityCurve :: "real list"
  res_timestamps :: "int list"

record Backtester =
  config :: BacktestConfig
  pnlTracker :: PnLTracker
  currentPosition :: real
  bt_avgEntryPrice :: real
  currentCash :: real

definition Backtester_new :: "BacktestConfig \<Rightarrow> Backtester" where
  "Backtester_new cfg =
     \<lparr>config = cfg, pnlTracker = PnLTracker_new (initialCapital cfg) AVERAGE,
      currentPosition = 0, bt_avgEntryPrice = 0, currentCash = initialCapital cfg\<rparr>"

definition applySlippage :: "BacktestConfig \<Rightarrow> real \<Rightarrow> real \<Rightarrow> bool \<Rightarrow> real" where
  "applySlippage cfg p q isBuy =
     (let slippageFactor = 1 + (if isBuy then 1 else - 1) * (slippageBps cfg / 10000)
      in p * slippageFactor)"

definition calculateCommission :: "BacktestConfig \<Rightarrow> real \<Rightarrow> real" where
  "calculateCommission cfg notional = notional * commissionRate cfg"

definition canEnterPosition :: "Backtester \<Rightarrow> real \<Rightarrow> real \<Rightarrow> bool" where
  "canEnterPosition b p q =
     (let notional = p * \<bar>q\<bar>;
          requiredCapital = notional * (if enableMarginTrading (config b)
                                        then marginRequirement (config b) else 1)
      in requiredCapital \<le> currentCash b * maxPositionSize (config b))"

definition enterPosition :: "Backtester \<Rightarrow> MarketTick \<Rightarrow> real \<Rightarrow> bool \<Rightarrow> string \<Rightarrow> Backtester" where
  "enterPosition b tick q isLongSide reason =
     (let executionPrice = applySlippage (config b) (price tick) q isLongSide;
          notional = executionPrice * \<bar>q\<bar>;
          comm = calculateCommission (config b) notional
      in b\<lparr>currentPosition := q,
            bt_avgEntryPrice := executionPrice,
            currentCash := currentCash b - (notional + comm),
            pnlTracker := addPosition (pnlTracker b) (symbol tick) q executionPrice\<rparr>)"

definition exitPosition :: "Backtester \<Rightarrow> MarketTick \<Rightarrow> string \<Rightarrow> Backtester" where
  "exitPosition b tick reason =
     (if currentPosition b = 0 then b
      else
        let isLongSide = (currentPosition b > 0);
            executionPrice = applySlippage (config b) (price tick) \<bar>currentPosition b\<bar>
                               (\<not> isLongSide);
            notional = executionPrice * \<bar>currentPosition b\<bar>;
            comm = calculateCommission (config b) notional
        in b\<lparr>currentCash := currentCash b + (notional - comm),
              pnlTracker := closePosition (pnlTracker b) (symbol tick) executionPrice,
              currentPosition := 0,
              bt_avgEntryPrice := 0\<rparr>)"

text \<open>The loop of \<^verbatim>\<open>computeResults\<close> over the trades.\<close>

record resultAcc =
  acc_totalPnL :: real
  acc_totalWin :: real
  acc_totalLoss :: real
  acc_numWinning :: int
  acc_numLosing :: int

definition resultStep :: "resultAcc \<Rightarrow> Trade \<Rightarrow> resultAcc" where
  "resultStep a trade =
     (let a1 = a\<lparr>acc_totalPnL := acc_totalPnL a + pnl trade\<rparr>
      in if pnl trade > 0
         then a1\<lparr>acc_totalWin := acc_totalWin a1 + pnl trade,
                 acc_numWinning := acc_numWinning a1 + 1\<rparr>
         else if pnl trade < 0
         then a1\<lparr>acc_totalLoss := acc_totalLoss a1 + \<bar>pnl trade\<bar>,
                 acc_numLosing := acc_numLosing a1 + 1\<rparr>
         else a1)"

definition computeResults :: "BacktestConfig \<Rightarrow> Trade list \<Rightarrow> BacktestResult" where
  "computeResults cfg ts =
     (if ts = [] then
        \<lparr>trades = ts, totalPnL = 0, totalReturn = 0, sharpeRatio = 0, maxDrawdown = 0,
         winRate = 0, numTrades = int (length ts), numWinningTrades = 0, numLosingTrades = 0,
         avgWin = 0, avgLoss = 0, profitFactor = 0, expectancy = 0,
         equityCurve = [], res_timestamps = []\<rparr>
      else
        let a = foldl resultStep
                  \<lparr>acc_totalPnL = 0, acc_totalWin = 0, acc_totalLoss = 0,
                   acc_numWinning = 0, acc_numLosing = 0\<rparr> ts;
            n = int (length ts);
            aw = (if acc_numWinning a > 0 then acc_totalWin a / real_of_int (acc_numWinning a)
                  else 0);
            al = (if acc_numLosing a > 0 then acc_totalLoss a / real_of_int (acc_numLosing a)
                  else 0);
            returns = map (\<lambda>trade. pnl trade / initialCapital cfg) ts;
            curve = []
        in \<lparr>trades = ts,
            totalPnL = acc_totalPnL a,
            totalReturn = (acc_totalPnL a / initialCapital cfg) * 100,
            sharpeRatio = computeSharpeRatio returns 0 252,
            maxDrawdown = computeMaxDrawdown curve,
            winRate = real_of_int (acc_numWinning a) / real_of_int n,
            numTrades = n,
            numWinningTrades = acc_numWinning a,
            numLosingTrades = acc_numLosing a,
            avgWin = aw,
            avgLoss = al,
            profitFactor = (if al > 0 then aw / al else 0),
            expectancy = acc_totalPnL a / real_of_int n,
            equityCurve = curve,
            res_timestamps = []\<rparr>)"

text \<open>
  The state of the loop of \<^verbatim>\<open>Backtester::run\<close>: the backtester itself and the three local
  vectors \<^verbatim>\<open>trades\<close>, \<^verbatim>\<open>equityCurve\<close> and \<^verbatim>\<open>timestamps\<close>.
\<close>

record runState =
  rs_bt :: Backtester
  rs_trades :: "Trade list"
  rs_equityCurve :: "real list"
  rs_timestamps :: "int list"

definition runTick :: "(MarketTick \<Rightarrow> int) \<Rightarrow> runState \<Rightarrow> MarketTick \<Rightarrow> runState" where
  "runTick signalFunc st tick =
     (let b = rs_bt st;
          sg = signalFunc tick;
          st1 =
            (if sg = 1 \<and> currentPosition b \<le> 0 then
               (let maxQuantity = (currentCash b * maxPositionSize (config b)) / price tick
                in if canEnterPosition b (price tick) maxQuantity
                   then st\<lparr>rs_bt := enterPosition b tick maxQuantity True ''SIGNAL_BUY''\<rparr>
                   else st)
             else if sg = - 1 \<and> currentPosition b \<ge> 0 then
               (let st2 =
                  (if currentPosition b > 0 then
                     (let b1 = exitPosition b tick ''SIGNAL_SELL'';
                          trade =
                            \<lparr>tr_symbol = symbol tick,
                             tr_timestamp = timestamp tick,
                             entryPrice = bt_avgEntryPrice b1,
                             exitPrice = price tick,
                             tr_quantity = currentPosition b1,
                             isLong = True,
                             pnl = (price tick - bt_avgEntryPrice b1) * currentPosition b1,
                             commission =
                               calculateCommission (config b1) (price tick * currentPosition b1),
                             slippage =
                               applySlippage (config b1) (price tick) (currentPosition b1) False
                                 - price tick,
                             entryReason = ''SIGNAL_BUY'',
                             exitReason = ''SIGNAL_SELL''\<rparr>
                      in st\<lparr>rs_bt := b1, rs_trades := rs_trades st @ [trade]\<rparr>)
                   else st);
                    b2 = rs_bt st2
                in if enableShortSelling (config b2) then
                     (let maxQuantity =
                            (currentCash b2 * maxPositionSize (config b2)) / price tick
                      in if canEnterPosition b2 (price tick) maxQuantity
                         then st2\<lparr>rs_bt := enterPosition b2 tick (- maxQuantity) False
                                              ''SIGNAL_SELL''\<rparr>
                         else st2)
                   else st2)
             else st);
          b3 = rs_bt st1;
          equity = currentCash b3 + currentPosition b3 * price tick
      in st1\<lparr>rs_equityCurve := rs_equityCurve st1 @ [equity],
             rs_timestamps := rs_timestamps st1 @ [timestamp tick],
             rs_bt := b3\<lparr>pnlTracker := updatePrice (pnlTracker b3) (symbol tick) (price tick)\<rparr>\<rparr>)"

definition runLoop :: "Backtester \<Rightarrow> MarketTick list \<Rightarrow> (MarketTick \<Rightarrow> int) \<Rightarrow> runState" where
  "runLoop b historicalData signalFunc =
     (let b0 = b\<lparr>currentPosition := 0, bt_avgEntryPrice := 0,
                 currentCash := initialCapital (config b),
                 pnlTracker := PnLTracker_reset (pnlTracker b)\<rparr>
      in foldl (runTick signalFunc)
           \<lparr>rs_bt = b0, rs_trades = [], rs_equityCurve = [], rs_timestamps = []\<rparr>
           historicalData)"

text \<open>
  \<^verbatim>\<open>Backtester::run\<close>: the result it returns, paired with the backtester it leaves behind.
\<close>

definition run :: "Backtester \<Rightarrow> MarketTick list \<Rightarrow> (MarketTick \<Rightarrow> int) \<Rightarrow> BacktestResult \<times> Backtester" where
  "run b historicalData signalFunc =
     (let st = runLoop b historicalData signalFunc;
          b1 = (if currentPosition (rs_bt st) \<noteq> 0 \<and> historicalData \<noteq> []
                then exitPosition (rs_bt st) (last historicalData) ''END_OF_BACKTEST''
                else rs_bt st)
      in (computeResults (config b1) (rs_trades st), b1))"

text \<open>
  Scenario S6 of the specification: the default configuration (commission 0.001, slippage
  2 bps, capital 10000, position size 0.5), a tick at price 100 on which the signal function
  answers \<open>+1\<close>, then a tick at price 110 on which it answers \<open>-1\<close>.
\<close>

definition s6Ticks :: "MarketTick list" where
  "s6Ticks = [\<lparr>symbol = ''BTC'', price = 100, volume = 1, timestamp = 0\<rparr>,
              \<lparr>symbol = ''BTC'', price = 110, volume = 1, timestamp = 1\<rparr>]"

definition s6Signal :: "MarketTick \<Rightarrow> int" where
  "s6Signal tick = (if price tick = 100 then 1 else if price tick = 110 then - 1 else 0)"



text \<open>
  An aggregator with interval 60 s and a registered callback, after a first tick of price
  100 and volume 1 at time 0.
\<close>

definition aggAfterFirst :: CandleAggregator where
  "aggAfterFirst =
     fst (CandleAggregator_onTick (setOnCandleClosed (CandleAggregator_new 60)) 100 1 0)"

text \<open>Two valid ticks (price > 0, volume \<ge> 0) that trade no volume.\<close>

definition zeroVolumeTicks :: "MarketTick list" where
  "zeroVolumeTicks = [\<lparr>symbol = ''BTC'', price = 100, volume = 0, timestamp = 0\<rparr>,
                      \<lparr>symbol = ''BTC'', price = 101, volume = 0, timestamp = 1\<rparr>]"

section \<open>Properties\<close>

subsection \<open>The clamp to the unit interval\<close>

text \<open>
  The clamp \<^verbatim>\<open>std::min(std::max(x, 0.0), 1.0)\<close>: its result is NaN or lies in \<open>[0, 1]\<close>.
\<close>

lemma clamp_range:
  "d_min (d_max H (Fin 0)) (Fin 1) = NaN \<or>
   (\<exists>h. d_min (d_max H (Fin 0)) (Fin 1) = Fin h \<and> 0 \<le> h \<and> h \<le> 1)"
  by (cases H) (auto simp: d_min_def d_max_def)


subsection \<open>Roll spread\<close>

lemma upt_1_6: "[1..<6] = [1, 2, 3, 4, 5::nat]"
  by (simp add: upt_rec)

lemma set_1_6: "{1..<6::nat} = {1, 2, 3, 4, 5}"
  by auto

text \<open>
  Claim C6 (fails on the code).  The claim asks for \<open>2 \<surd>(-cov)\<close> when the lag-1 covariance of
  the price changes is negative.  The source's comment names the same covariance, but the
  loop averages the plain products of successive changes, without subtracting the mean.  On
  the alternating series of scenario S3, whose mean is 0, both agree and the result is 2.
  On the series \<open>3, 1, 3, 1, 3, 1\<close>, the same alternation about the mean 2, the lag-1
  covariance is again \<open>-1\<close>, so the claim asks for 2, while the products average to 3 and
  \<open>computeRollSpread\<close> returns 0.
\<close>

theorem computeRollSpread_uncentred:
  "lag1_covariance [1, -1, 1, -1, 1, -1] = -1
   \<and> rollSpreadClaimed [1, -1, 1, -1, 1, -1] = 2
   \<and> computeRollSpread [1, -1, 1, -1, 1, -1] = 2
   \<and> lag1_covariance [3, 1, 3, 1, 3, 1] = -1
   \<and> rollSpreadClaimed [3, 1, 3, 1, 3, 1] = 2
   \<and> computeRollSpread [3, 1, 3, 1, 3, 1] = 0"
proof -
  have c1: "lag1_covariance [1, -1, 1, -1, 1, -1] = -1"
    by (simp add: lag1_covariance_def set_1_6)
  have c2: "lag1_covariance [3, 1, 3, 1, 3, 1] = -1"
    by (simp add: lag1_covariance_def set_1_6)
  have r1: "computeRollSpread [1, -1, 1, -1, 1, -1] = 2"
    by (simp add: computeRollSpread_def upt_1_6 rollStep_def Let_def)
  have r2: "computeRollSpread [3, 1, 3, 1, 3, 1] = 0"
    by (simp add: computeRollSpread_def upt_1_6 rollStep_def Let_def)
  show ?thesis
    by (simp add: rollSpreadClaimed_def c1 c2 r1 r2)
qed

subsection \<open>Reset and replay of the order-flow engine\<close>

declare maintainWindow.simps [simp del]
declare trimFront.simps [simp del]

text \<open>
  Claim C3 (fails on the code).  The claim asks that \<open>reset()\<close> followed by a replay of the
  same ticks reproduces the first run's signals.  \<open>OrderFlowEngine::reset\<close> clears only the
  volume delta, the running average volume and the tick count; the imbalance, pressure and
  aggression windows survive.  On the two-tick stream \<open>resetTicks\<close> the first run emits
  order-flow imbalances \<open>1, -1/2\<close> and the replay after \<open>reset()\<close> emits \<open>-1/5, -1/2\<close>
  (bid pressures \<open>1, 1/4\<close> against \<open>2/5, 1/4\<close>), so the two signal streams differ.
\<close>

theorem OrderFlowEngine_reset_replay_differs:
  "fst (replayFlow OrderFlowEngine_new 0 resetTicks) =
     [Some \<lparr>sig_ofi = 1, sig_bidPressure = 1, sig_askPressure = 0,
             sig_aggression = 0, sig_volumeDelta = 1, sig_toxicity = 7 / 10,
             sig_isToxicFlow = False, sig_flowDirection = ''BUY_DOMINANT'',
             sig_timestamp = 0\<rparr>,
      Some \<lparr>sig_ofi = - (1 / 2), sig_bidPressure = 1 / 4, sig_askPressure = 3 / 4,
             sig_aggression = - (1 / 4), sig_volumeDelta = - 2, sig_toxicity = 3 / 5,
             sig_isToxicFlow = False, sig_flowDirection = ''SELL_DOMINANT'',
             sig_timestamp = 1\<rparr>]
   \<and> fst (replayFlow
            (OrderFlowEngine_reset (snd (replayFlow OrderFlowEngine_new 0 resetTicks)))
            0 resetTicks) =
     [Some \<lparr>sig_ofi = - (1 / 5), sig_bidPressure = 2 / 5, sig_askPressure = 3 / 5,
             sig_aggression = - (1 / 6), sig_volumeDelta = 1, sig_toxicity = 47 / 100,
             sig_isToxicFlow = False, sig_flowDirection = ''NEUTRAL'',
             sig_timestamp = 0\<rparr>,
      Some \<lparr>sig_ofi = - (1 / 2), sig_bidPressure = 1 / 4, sig_askPressure = 3 / 4,
             sig_aggression = - (1 / 4), sig_volumeDelta = - 2, sig_toxicity = 3 / 5,
             sig_isToxicFlow = False, sig_flowDirection = ''SELL_DOMINANT'',
             sig_timestamp = 1\<rparr>]
   \<and> fst (replayFlow
            (OrderFlowEngine_reset (snd (replayFlow OrderFlowEngine_new 0 resetTicks)))
            0 resetTicks)
       \<noteq> fst (replayFlow OrderFlowEngine_new 0 resetTicks)"
proof -
  have r1: "fst (replayFlow OrderFlowEngine_new 0 resetTicks) =
     [Some \<lparr>sig_ofi = 1, sig_bidPressure = 1, sig_askPressure = 0,
             sig_aggression = 0, sig_volumeDelta = 1, sig_toxicity = 7 / 10,
             sig_isToxicFlow = False, sig_flowDirection = ''BUY_DOMINANT'',
             sig_timestamp = 0\<rparr>,
      Some \<lparr>sig_ofi = - (1 / 2), sig_bidPressure = 1 / 4, sig_askPressure = 3 / 4,
             sig_aggression = - (1 / 4), sig_volumeDelta = - 2, sig_toxicity = 3 / 5,
             sig_isToxicFlow = False, sig_flowDirection = ''SELL_DOMINANT'',
             sig_timestamp = 1\<rparr>]"
    by code_simp
  have r2: "fst (replayFlow
            (OrderFlowEngine_reset (snd (replayFlow OrderFlowEngine_new 0 resetTicks)))
            0 resetTicks) =
     [Some \<lparr>sig_ofi = - (1 / 5), sig_bidPressure = 2 / 5, sig_askPressure = 3 / 5,
             sig_aggression = - (1 / 6), sig_volumeDelta = 1, sig_toxicity = 47 / 100,
             sig_isToxicFlow = False, sig_flowDirection = ''NEUTRAL'',
             sig_timestamp = 0\<rparr>,
      Some \<lparr>sig_ofi = - (1 / 2), sig_bidPressure = 1 / 4, sig_askPressure = 3 / 4,
             sig_aggression = - (1 / 4), sig_volumeDelta = - 2, sig_toxicity = 3 / 5,
             sig_isToxicFlow = False, sig_flowDirection = ''SELL_DOMINANT'',
             sig_timestamp = 1\<rparr>]"
    by code_simp
  show ?thesis
    unfolding r1 r2 by simp
qed


text \<open>
  The sibling \<open>MicrostructureAnalyzer::reset\<close> does return the analyzer to its freshly
  constructed state.
\<close>

lemma MicrostructureAnalyzer_reset_fresh:
  "MicrostructureAnalyzer_reset a =
     MicrostructureAnalyzer_new (bucketSize a) (vpinWindow a) (impactWindow a)"
  by (simp add: MicrostructureAnalyzer_reset_def MicrostructureAnalyzer_new_def)

subsection \<open>The P\&L tracker never keeps dust\<close>

lemma dust_pos: "0 < dust"
  by (simp add: dust_def)

lemma noDust_new: "noDust (PnLTracker_new c m)"
  by (simp add: noDust_def PnLTracker_new_def)

lemma quantity_updatePositionCost:
  "quantity (updatePositionCost m pos q p) = quantity pos + q"
  by (cases m) (simp_all add: updatePositionCost_def Let_def)

lemma noDust_addPosition_opening:
  assumes inv: "noDust t" and big: "positions t sy = None \<longrightarrow> dust \<le> \<bar>q\<bar>"
  shows "noDust (addPosition t sy q p)"
proof (cases "positions t sy")
  case None
  with inv big show ?thesis
    by (auto simp: noDust_def addPosition_def Let_def)
next
  case (Some pos)
  with inv have old: "dust \<le> \<bar>quantity pos\<bar>"
    by (simp add: noDust_def)
  show ?thesis
  proof (cases "(quantity pos > 0 \<and> q > 0) \<or> (quantity pos < 0 \<and> q < 0)")
    case True
    then have "dust \<le> \<bar>quantity pos + q\<bar>"
      using old by auto
    with inv Some True show ?thesis
      by (auto simp: noDust_def addPosition_def Let_def quantity_updatePositionCost)
  next
    case False
    with inv Some show ?thesis
      by (auto simp: noDust_def addPosition_def Let_def)
  qed
qed

lemma noDust_closePosition: "noDust t \<Longrightarrow> noDust (closePosition t sy p)"
  by (auto simp: noDust_def closePosition_def Let_def split: option.splits)

lemma noDust_closePartialPosition: "noDust t \<Longrightarrow> noDust (closePartialPosition t sy q p)"
  by (auto simp: noDust_def closePartialPosition_def Let_def split: option.splits)

lemma noDust_updatePrice: "noDust t \<Longrightarrow> noDust (updatePrice t sy p)"
  by (auto simp: noDust_def updatePrice_def split: option.splits)

lemma noDust_opensSized:
  "noDust t \<Longrightarrow> opensSized t ops \<Longrightarrow> noDust (foldl applyOp t ops)"
proof (induction t ops rule: opensSized.induct)
  case (1 t)
  then show ?case by simp
next
  case (2 t sy q p ops)
  then show ?case by (simp add: noDust_addPosition_opening)
next
  case (3 t sy p ops)
  then show ?case by (simp add: noDust_closePosition)
next
  case (4 t sy q p ops)
  then show ?case by (simp add: noDust_closePartialPosition)
next
  case (5 t sy p ops)
  then show ?case by (simp add: noDust_updatePrice)
qed

text \<open>
  Claim C9 as amended.  After every sequence of tracker operations in which each
  \<open>addPosition\<close> call that opens a new position carries a quantity of absolute value at
  least \<open>1e-8\<close>, every position stored in the tracker has \<open>|quantity| \<ge> 1e-8\<close>: adding to an
  open position on its own side only enlarges it, the closing and flipping branch of
  \<open>addPosition\<close> and the reducing branch of \<open>closePartialPosition\<close> erase a position that
  falls below the threshold, and \<open>closePosition\<close> always erases.
\<close>

theorem PnLTracker_noDust_opening:
  "opensSized (PnLTracker_new c m) ops \<Longrightarrow> noDust (foldl applyOp (PnLTracker_new c m) ops)"
  by (rule noDust_opensSized [OF noDust_new])

theorem PnLTracker_noDust_opening_witness:
  "positions (foldl applyOp (PnLTracker_new 10000 AVERAGE) dustyOps) ''BTC'' = None
   \<and> (\<exists>pos. positions (foldl applyOp (PnLTracker_new 10000 AVERAGE) dustyOps) ''ETH'' = Some pos
        \<and> quantity pos = 1 + 3 / 10 ^ 9 \<and> dust \<le> \<bar>quantity pos\<bar>)"
proof -
  have h: "opensSized (PnLTracker_new 10000 AVERAGE) dustyOps"
    by (simp add: dustyOps_def PnLTracker_new_def addPosition_def Let_def dust_def
          updatePositionCost_def addRealized_def)
  have b: "positions (foldl applyOp (PnLTracker_new 10000 AVERAGE) dustyOps) ''BTC'' = None"
    by (simp add: dustyOps_def PnLTracker_new_def addPosition_def Let_def dust_def
          updatePositionCost_def addRealized_def)
  have "\<exists>pos. positions (foldl applyOp (PnLTracker_new 10000 AVERAGE) dustyOps) ''ETH'' = Some pos
          \<and> quantity pos = 1 + 3 / 10 ^ 9"
    by (simp add: dustyOps_def PnLTracker_new_def addPosition_def Let_def dust_def
          updatePositionCost_def addRealized_def)
  then obtain pos
    where e: "positions (foldl applyOp (PnLTracker_new 10000 AVERAGE) dustyOps) ''ETH'' = Some pos"
      and q: "quantity pos = 1 + 3 / 10 ^ 9"
    by blast
  from PnLTracker_noDust_opening [OF h] e have "dust \<le> \<bar>quantity pos\<bar>"
    unfolding noDust_def by blast
  with b e q show ?thesis by blast
qed

text \<open>
  The condition is also needed: a run that opens a position below the threshold leaves a
  stored position below it after some prefix of the run.
\<close>

lemma dust_opening_breaks:
  assumes "positions t sy = None" and "\<bar>q\<bar> < dust"
  shows "\<not> noDust (addPosition t sy q p)"
proof -
  from assms(1) have "\<exists>pos. positions (addPosition t sy q p) sy = Some pos \<and> quantity pos = q"
    by (simp add: addPosition_def Let_def)
  with assms(2) show ?thesis
    unfolding noDust_def by fastforce
qed

lemma opensSized_needed:
  "noDust t \<Longrightarrow> \<not> opensSized t ops \<Longrightarrow>
     \<exists>k \<le> length ops. \<not> noDust (foldl applyOp t (take k ops))"
proof (induction t ops rule: opensSized.induct)
  case (1 t)
  then show ?case by simp
next
  case (2 t sy q p ops)
  show ?case
  proof (cases "positions t sy = None \<longrightarrow> dust \<le> \<bar>q\<bar>")
    case True
    with 2 have "noDust (addPosition t sy q p)" and "\<not> opensSized (addPosition t sy q p) ops"
      by (simp_all add: noDust_addPosition_opening)
    with 2 obtain k where "k \<le> length ops"
      and "\<not> noDust (foldl applyOp (addPosition t sy q p) (take k ops))"
      by blast
    then have "Suc k \<le> length (AddPosition sy q p # ops)
      \<and> \<not> noDust (foldl applyOp t (take (Suc k) (AddPosition sy q p # ops)))"
      by simp
    then show ?thesis by blast
  next
    case False
    then have "\<not> noDust (addPosition t sy q p)"
      by (simp add: dust_opening_breaks)
    then have "Suc 0 \<le> length (AddPosition sy q p # ops)
      \<and> \<not> noDust (foldl applyOp t (take (Suc 0) (AddPosition sy q p # ops)))"
      by simp
    then show ?thesis by blast
  qed
next
  case (3 t sy p ops)
  then have "noDust (closePosition t sy p)" and "\<not> opensSized (closePosition t sy p) ops"
    by (simp_all add: noDust_closePosition)
  with 3 obtain k where "k \<le> length ops"
    and "\<not> noDust (foldl applyOp (closePosition t sy p) (take k ops))"
    by auto
  then have "Suc k \<le> length (ClosePosition sy p # ops)
    \<and> \<not> noDust (foldl applyOp t (take (Suc k) (ClosePosition sy p # ops)))"
    by simp
  then show ?case by blast
next
  case (4 t sy q p ops)
  then have "noDust (closePartialPosition t sy q p)"
    and "\<not> opensSized (closePartialPosition t sy q p) ops"
    by (simp_all add: noDust_closePartialPosition)
  with 4 obtain k where "k \<le> length ops"
    and "\<not> noDust (foldl applyOp (closePartialPosition t sy q p) (take k ops))"
    by auto
  then have "Suc k \<le> length (ClosePartialPosition sy q p # ops)
    \<and> \<not> noDust (foldl applyOp t (take (Suc k) (ClosePartialPosition sy q p # ops)))"
    by simp
  then show ?case by blast
next
  case (5 t sy p ops)
  then have "noDust (updatePrice t sy p)" and "\<not> opensSized (updatePrice t sy p) ops"
    by (simp_all add: noDust_updatePrice)
  with 5 obtain k where "k \<le> length ops"
    and "\<not> noDust (foldl applyOp (updatePrice t sy p) (take k ops))"
    by auto
  then have "Suc k \<le> length (UpdatePrice sy p # ops)
    \<and> \<not> noDust (foldl applyOp t (take (Suc k) (UpdatePrice sy p # ops)))"
    by simp
  then show ?case by blast
qed

text \<open>
  Claim C9 as stated fails: \<open>addPosition\<close> stores a new position without looking at its
  size, so opening a position of quantity 0 leaves a stored position below the threshold.
\<close>

theorem PnLTracker_dust_counterexample:
  "\<not> noDust (foldl applyOp (PnLTracker_new 10000 AVERAGE) [AddPosition ''BTC'' 0 100])
   \<and> (\<exists>pos. positions (foldl applyOp (PnLTracker_new 10000 AVERAGE)
                [AddPosition ''BTC'' 0 100]) ''BTC'' = Some pos \<and> quantity pos = 0)"
proof -
  have p: "\<exists>pos. positions (foldl applyOp (PnLTracker_new 10000 AVERAGE)
                [AddPosition ''BTC'' 0 100]) ''BTC'' = Some pos \<and> quantity pos = 0"
    by (simp add: addPosition_def PnLTracker_new_def Let_def)
  then have "\<not> noDust (foldl applyOp (PnLTracker_new 10000 AVERAGE) [AddPosition ''BTC'' 0 100])"
    unfolding noDust_def using dust_pos by fastforce
  with p show ?thesis by blast
qed

subsection \<open>Backtester: the result of a run\<close>

lemma runTick_curve:
  "length (rs_equityCurve (runTick f st tick)) = Suc (length (rs_equityCurve st))"
  by (simp add: runTick_def Let_def)

lemma runTick_foldl_curve:
  "length (rs_equityCurve (foldl (runTick f) st ticks)) = length (rs_equityCurve st) + length ticks"
  by (induction ticks arbitrary: st) (simp_all add: runTick_curve)

text \<open>
  Claim C10.  For every run of the backtester, on any data and any signal function, the
  returned result's \<open>equityCurve\<close> and \<open>timestamps\<close> are empty and its \<open>maxDrawdown\<close> is 0,
  although the loop has computed one equity value per tick.
\<close>

theorem run_discards_equity:
  "equityCurve (fst (run b historicalData signalFunc)) = []
   \<and> res_timestamps (fst (run b historicalData signalFunc)) = []
   \<and> maxDrawdown (fst (run b historicalData signalFunc)) = 0
   \<and> length (rs_equityCurve (runLoop b historicalData signalFunc)) = length historicalData"
  by (simp add: run_def computeResults_def computeMaxDrawdown_def Let_def runLoop_def
        runTick_foldl_curve)

lemmas bt_defs = run_def runLoop_def runTick_def s6Ticks_def s6Signal_def enterPosition_def
  exitPosition_def canEnterPosition_def applySlippage_def calculateCommission_def
  Backtester_new_def BacktestConfig_default_def

lemma s6_trades:
  "rs_trades (runLoop (Backtester_new BacktestConfig_default) s6Ticks s6Signal) =
     [\<lparr>tr_symbol = ''BTC'', tr_timestamp = 1, entryPrice = 0, exitPrice = 110,
       tr_quantity = 0, isLong = True, pnl = 0, commission = 0, slippage = - (11 / 500),
       entryReason = ''SIGNAL_BUY'', exitReason = ''SIGNAL_SELL''\<rparr>]"
  by (simp add: bt_defs Let_def)

lemma s6_entry:
  "currentPosition (rs_bt (runLoop (Backtester_new BacktestConfig_default) [hd s6Ticks] s6Signal)) = 50
   \<and> bt_avgEntryPrice (rs_bt (runLoop (Backtester_new BacktestConfig_default) [hd s6Ticks] s6Signal))
       = 10002 / 100"
  by (simp add: bt_defs Let_def)

text \<open>
  Claim C1 (fails on the code).  In scenario S6 the claim expects the recorded trade to show
  entry price 100.02, exit price 109.978, quantity about 49.99, P\&L about 497.6, and a win
  rate of 1.  The position is indeed entered at 100.02 (with quantity 50), but \<open>run\<close> builds
  the \<open>Trade\<close> after \<open>exitPosition\<close> has zeroed \<open>currentPosition_\<close> and \<open>avgEntryPrice_\<close>: the
  recorded trade has entry price 0, exit price 110 (the raw tick price), quantity 0 and
  P\&L 0, and the win rate is 0.
\<close>

theorem run_s6_records_zero_trade:
  "currentPosition (rs_bt (runLoop (Backtester_new BacktestConfig_default) [hd s6Ticks] s6Signal)) = 50
   \<and> bt_avgEntryPrice (rs_bt (runLoop (Backtester_new BacktestConfig_default) [hd s6Ticks] s6Signal))
       = 10002 / 100
   \<and> trades (fst (run (Backtester_new BacktestConfig_default) s6Ticks s6Signal)) =
       [\<lparr>tr_symbol = ''BTC'', tr_timestamp = 1, entryPrice = 0, exitPrice = 110,
         tr_quantity = 0, isLong = True, pnl = 0, commission = 0, slippage = - (11 / 500),
         entryReason = ''SIGNAL_BUY'', exitReason = ''SIGNAL_SELL''\<rparr>]
   \<and> numTrades (fst (run (Backtester_new BacktestConfig_default) s6Ticks s6Signal)) = 1
   \<and> numWinningTrades (fst (run (Backtester_new BacktestConfig_default) s6Ticks s6Signal)) = 0
   \<and> winRate (fst (run (Backtester_new BacktestConfig_default) s6Ticks s6Signal)) = 0"
proof -
  have "trades (fst (run (Backtester_new BacktestConfig_default) s6Ticks s6Signal)) =
       [\<lparr>tr_symbol = ''BTC'', tr_timestamp = 1, entryPrice = 0, exitPrice = 110,
         tr_quantity = 0, isLong = True, pnl = 0, commission = 0, slippage = - (11 / 500),
         entryReason = ''SIGNAL_BUY'', exitReason = ''SIGNAL_SELL''\<rparr>]
   \<and> numTrades (fst (run (Backtester_new BacktestConfig_default) s6Ticks s6Signal)) = 1
   \<and> numWinningTrades (fst (run (Backtester_new BacktestConfig_default) s6Ticks s6Signal)) = 0
   \<and> winRate (fst (run (Backtester_new BacktestConfig_default) s6Ticks s6Signal)) = 0"
    by (simp add: run_def s6_trades computeResults_def Let_def resultStep_def)
  with s6_entry show ?thesis by blast
qed

text \<open>
  For the same reason every trade that \<open>run\<close> records has P\&L 0: the trade is built from
  the position after \<open>exitPosition\<close> has closed it.
\<close>

lemma exitPosition_flat:
  "currentPosition (exitPosition b tick reason) = 0"
  by (simp add: exitPosition_def Let_def)

lemma runTick_trades:
  "set (rs_trades (runTick f st tick)) \<subseteq> set (rs_trades st) \<union> {t. pnl t = 0}"
  by (auto simp: runTick_def Let_def exitPosition_flat)

lemma runLoop_trades_zero_pnl_aux:
  "\<forall>t \<in> set (rs_trades st). pnl t = 0 \<Longrightarrow>
     \<forall>t \<in> set (rs_trades (foldl (runTick f) st ticks)). pnl t = 0"
proof (induction ticks arbitrary: st)
  case Nil
  then show ?case by simp
next
  case (Cons tick ticks)
  from Cons.prems runTick_trades [of f st tick]
  have "\<forall>t \<in> set (rs_trades (runTick f st tick)). pnl t = 0"
    by blast
  from Cons.IH [OF this] show ?case by simp
qed

lemma run_trades_zero_pnl:
  "\<forall>t \<in> set (trades (fst (run b historicalData signalFunc))). pnl t = 0"
proof -
  have "\<forall>t \<in> set (rs_trades (runLoop b historicalData signalFunc)). pnl t = 0"
    unfolding runLoop_def Let_def by (rule runLoop_trades_zero_pnl_aux) simp
  then show ?thesis
    by (simp add: run_def Let_def computeResults_def)
qed

subsection \<open>Profit factor\<close>












subsection \<open>Candle aggregator\<close>

text \<open>
  Claim C2 as amended.  When a tick arrives whose elapsed time from the current candle's
  start is at least \<open>intervalSeconds\<close>, the candle passed to the callback includes the
  triggering tick (high and low extended by its price, close set to its price, volume
  increased by its volume, end time set to its time), and the replacement candle starts at
  the triggering tick with open = high = low = close = the tick's price and volume 0.
\<close>

theorem onTick_emits_updated_candle:
  assumes "hasCandle agg" and "hasCallback agg"
    and "duration_cast_seconds (ts - candleStart agg) \<ge> intervalSeconds agg"
  shows "snd (CandleAggregator_onTick agg p v ts) =
           Some ((currentCandle agg)\<lparr>c_high := max (c_high (currentCandle agg)) p,
                                      c_low := min (c_low (currentCandle agg)) p,
                                      c_close := p,
                                      c_volume := c_volume (currentCandle agg) + v,
                                      endTime := ts\<rparr>)
         \<and> currentCandle (fst (CandleAggregator_onTick agg p v ts)) =
             \<lparr>c_open = p, c_high = p, c_low = p, c_close = p, c_volume = 0,
              startTime = ts, endTime = ts\<rparr>
         \<and> candleStart (fst (CandleAggregator_onTick agg p v ts)) = ts"
  using assms by (simp add: CandleAggregator_onTick_def Let_def freshCandle_def)

lemma aggAfterFirst_eq:
  "aggAfterFirst = \<lparr>intervalSeconds = 60, hasCandle = True, candleStart = 0,
      currentCandle = \<lparr>c_open = 100, c_high = 100, c_low = 100, c_close = 100, c_volume = 1,
              startTime = 0, endTime = 0\<rparr>, hasCallback = True\<rparr>"
  by (simp add: aggAfterFirst_def CandleAggregator_onTick_def CandleAggregator_new_def
        setOnCandleClosed_def freshCandle_def)

lemma sixty_seconds_elapsed: "duration_cast_seconds 60000000000 = 60"
  by (simp add: duration_cast_seconds_def signed_divide_int_def)

text \<open>
  Claim C2 as stated fails: with a candle opened at price 100 and volume 1, a tick of price
  105 and volume 2 arriving 60 s later is folded into the candle before it is emitted, so
  the emitted candle has high 105, close 105 and volume 3.
\<close>

theorem onTick_emitted_counterexample:
  "currentCandle aggAfterFirst =
     \<lparr>c_open = 100, c_high = 100, c_low = 100, c_close = 100, c_volume = 1,
      startTime = 0, endTime = 0\<rparr>
   \<and> snd (CandleAggregator_onTick aggAfterFirst 105 2 60000000000) =
     Some \<lparr>c_open = 100, c_high = 105, c_low = 100, c_close = 105, c_volume = 3,
           startTime = 0, endTime = 60000000000\<rparr>
   \<and> snd (CandleAggregator_onTick aggAfterFirst 105 2 60000000000)
       \<noteq> Some (currentCandle aggAfterFirst)"
  by (simp add: aggAfterFirst_eq CandleAggregator_onTick_def Let_def sixty_seconds_elapsed)

theorem onTick_emits_updated_candle_witness:
  "snd (CandleAggregator_onTick aggAfterFirst 105 2 60000000000) =
     Some \<lparr>c_open = 100, c_high = 105, c_low = 100, c_close = 105, c_volume = 3,
           startTime = 0, endTime = 60000000000\<rparr>
   \<and> currentCandle (fst (CandleAggregator_onTick aggAfterFirst 105 2 60000000000)) =
     \<lparr>c_open = 105, c_high = 105, c_low = 105, c_close = 105, c_volume = 0,
      startTime = 60000000000, endTime = 60000000000\<rparr>"
proof -
  have h1: "hasCandle aggAfterFirst" and h2: "hasCallback aggAfterFirst"
    by (simp_all add: aggAfterFirst_eq)
  have h3: "duration_cast_seconds (60000000000 - candleStart aggAfterFirst)
              \<ge> intervalSeconds aggAfterFirst"
    by (simp add: aggAfterFirst_eq sixty_seconds_elapsed)
  from onTick_emits_updated_candle [OF h1 h2 h3, of 105 2] show ?thesis
    by (simp add: aggAfterFirst_eq)
qed


subsection \<open>VPIN and toxicity\<close>

text \<open>
  Claim C5 (fails on the code).  The claim asks for \<open>vpin\<close> and \<open>toxicity\<close> in \<open>[0, 1]\<close> after
  every sequence of valid ticks.  An analyzer constructed with bucket size 0 completes a
  bucket at every tick; after two valid ticks of volume 0 both bucket imbalances are 0,
  \<open>computeVPIN\<close> divides the average imbalance 0 by the bucket size 0, and the clamp
  \<open>min(max(NaN, 0), 1)\<close> lets the NaN through to \<open>vpin\<close> and, multiplied by the imbalance, to
  \<open>toxicity\<close>.
\<close>

theorem getVPIN_zero_bucket_nan:
  "validTick (zeroVolumeTicks ! 0) \<and> validTick (zeroVolumeTicks ! 1)
   \<and> volumeBuckets (foldl MicrostructureAnalyzer_onTick (MicrostructureAnalyzer_new 0 50 100)
        zeroVolumeTicks) = [0, 0]
   \<and> vpin (getVPIN (foldl MicrostructureAnalyzer_onTick (MicrostructureAnalyzer_new 0 50 100)
        zeroVolumeTicks)) = NaN
   \<and> toxicity (getVPIN (foldl MicrostructureAnalyzer_onTick (MicrostructureAnalyzer_new 0 50 100)
        zeroVolumeTicks)) = NaN"
proof -
  have v: "validTick (zeroVolumeTicks ! 0) \<and> validTick (zeroVolumeTicks ! 1)"
    by (simp add: zeroVolumeTicks_def validTick_def)
  have b: "volumeBuckets (foldl MicrostructureAnalyzer_onTick
             (MicrostructureAnalyzer_new 0 50 100) zeroVolumeTicks) = [0, 0]"
    by code_simp
  have n: "vpin (getVPIN (foldl MicrostructureAnalyzer_onTick
             (MicrostructureAnalyzer_new 0 50 100) zeroVolumeTicks)) = NaN"
    by code_simp
  have t: "toxicity (getVPIN (foldl MicrostructureAnalyzer_onTick
             (MicrostructureAnalyzer_new 0 50 100) zeroVolumeTicks)) = NaN"
    by code_simp
  from v b n t show ?thesis by blast
qed

text \<open>
  What the code does guarantee.  The clamp leaves \<open>vpin\<close> either NaN or in \<open>[0, 1]\<close>, and
  \<open>vpin\<close> is 0 as long as fewer than two volume buckets have been completed.
\<close>

lemma computeVPIN_range_or_nan:
  "computeVPIN a = NaN \<or> (\<exists>h. computeVPIN a = Fin h \<and> 0 \<le> h \<and> h \<le> 1)"
proof (cases "length (volumeBuckets a) < 2")
  case True
  then have "computeVPIN a = Fin 0" by (simp add: computeVPIN_def)
  then show ?thesis by simp
next
  case False
  then show ?thesis
    using clamp_range by (simp add: computeVPIN_def Let_def)
qed

lemma volumeBuckets_updatePriceImpact [simp]:
  "volumeBuckets (updatePriceImpact a x y) = volumeBuckets a"
  by (simp add: updatePriceImpact_def Let_def)

lemma volumeBuckets_onTick:
  "length (volumeBuckets (MicrostructureAnalyzer_onTick a tick)) \<le>
     length (volumeBuckets a)
     + (if bucketFull a (classifyTrade a (price tick) (volume tick) 0 0) then 1 else 0)"
  by (simp add: MicrostructureAnalyzer_onTick_def updateVPINBuckets_def bucketFull_def Let_def)

lemma volumeBuckets_foldl:
  "length (volumeBuckets (foldl MicrostructureAnalyzer_onTick a ticks)) \<le>
     length (volumeBuckets a) + completedBuckets a ticks"
proof (induction ticks arbitrary: a)
  case Nil
  then show ?case by simp
next
  case (Cons t ticks)
  have "length (volumeBuckets (foldl MicrostructureAnalyzer_onTick a (t # ticks))) \<le>
        length (volumeBuckets (MicrostructureAnalyzer_onTick a t))
        + completedBuckets (MicrostructureAnalyzer_onTick a t) ticks"
    using Cons.IH [of "MicrostructureAnalyzer_onTick a t"] by simp
  also have "\<dots> \<le> length (volumeBuckets a) + completedBuckets a (t # ticks)"
    using volumeBuckets_onTick [of a t] by simp
  finally show ?case .
qed

lemma getVPIN_zero_below_two_buckets:
  assumes "completedBuckets (MicrostructureAnalyzer_new bs vw iw) ticks < 2"
  shows "vpin (getVPIN (foldl MicrostructureAnalyzer_onTick
           (MicrostructureAnalyzer_new bs vw iw) ticks)) = Fin 0"
proof -
  let ?init = "MicrostructureAnalyzer_new bs vw iw"
  let ?a = "foldl MicrostructureAnalyzer_onTick ?init ticks"
  have "length (volumeBuckets ?a) \<le> length (volumeBuckets ?init) + completedBuckets ?init ticks"
    by (rule volumeBuckets_foldl)
  with assms have "length (volumeBuckets ?a) < 2"
    by (simp add: MicrostructureAnalyzer_new_def)
  then show ?thesis
    by (simp add: getVPIN_def computeVPIN_def Let_def)
qed

subsection \<open>Hurst exponent\<close>

lemma upt_1_9: "[1..<9] = [1, 2, 3, 4, 5, 6, 7, 8::nat]"
  by (simp add: upt_rec)

lemma flat_returns: "logReturnsOf flatPrices = [0, 0, 0, 0, 0, 0, 0, 0]"
  by (simp add: logReturnsOf_def flatPrices_def upt_1_9)

lemma segZero:
  assumes "set rs \<subseteq> {0}"
  shows "segmentRS rs lag seg = 0"
proof -
  define sg where "sg = take lag (drop (seg * lag) rs)"
  have z: "\<forall>x \<in> set sg. x = 0"
    using assms by (auto simp: sg_def dest!: in_set_takeD in_set_dropD)
  have s0: "sum_list sg = 0" using z by (induction sg) auto
  have v0: "foldl (\<lambda>acc x. acc + x * x) c sg = c" for c :: real
    using z by (induction sg arbitrary: c) auto
  show ?thesis
    unfolding segmentRS_def Let_def sg_def [symmetric] s0 by (simp add: v0)
qed

lemma flat_point:
  assumes "set rs \<subseteq> {0}" and "0 < lag" and "lag \<le> length rs"
  shows "lagPoint rs lag = [(ln (real lag), NInf)]"
proof -
  have f: "foldl (\<lambda>acc seg. acc + segmentRS rs lag seg) c xs = c" for c xs
    by (induction xs arbitrary: c) (simp_all add: segZero [OF assms(1)])
  from assms have "0 < length rs div lag"
    by (simp add: div_greater_zero_iff)
  then show ?thesis
    by (simp add: lagPoint_def Let_def f d_log_def)
qed

lemma flat_lags:
  "[2..<Suc (min 4 (length [0, 0, 0, 0, 0, 0, 0, 0::real] div 2))] = [2, 3, 4]"
  by (simp add: upt_rec)

lemma flat_points:
  "concat (map (lagPoint [0, 0, 0, 0, 0, 0, 0, 0]) [2, 3, 4]) =
     [(ln 2, NInf), (ln 3, NInf), (ln 4, NInf)]"
  by (simp add: flat_point)

text \<open>
  Claim C8 (fails on the code).  The claim asks for a result in \<open>[0, 1]\<close> on every price
  vector, and 0.5 when fewer than three valid regression points exist.  On nine equal prices
  with \<open>maxLag = 4\<close> every segment has \<open>S = 0\<close>, so \<open>avgRS = 0\<close> for each of the lags 2, 3
  and 4; the code still records the three points, with \<open>log 0 = -\<infinity>\<close>, the regression
  computes \<open>-\<infinity> - (-\<infinity>)\<close>, and the clamp \<open>min(max(H, 0), 1)\<close> lets NaN through.
\<close>

theorem hurstExponent_flat_prices_nan: "hurstExponent flatPrices 4 = NaN"
proof -
  have pos: "0 < ln 2 + ln 3 + ln (4::real)"
    by (intro add_pos_pos) simp_all
  show ?thesis
    unfolding hurstExponent_def Let_def flat_returns flat_lags flat_points
    using pos
    by (simp add: flatPrices_def d_sub_def signedInf_def d_max_def d_min_def)
qed

text \<open>So a result of \<open>hurstExponent\<close> that is not NaN lies in \<open>[0, 1]\<close>.\<close>

lemma hurstExponent_range_or_nan:
  "hurstExponent prices maxLag = NaN \<or>
   (\<exists>h. hurstExponent prices maxLag = Fin h \<and> 0 \<le> h \<and> h \<le> 1)"
proof -
  have "hurstExponent prices maxLag = Fin (1 / 2) \<or>
        (\<exists>H. hurstExponent prices maxLag = d_min (d_max H (Fin 0)) (Fin 1))"
    unfolding hurstExponent_def Let_def by metis
  moreover have "\<exists>h. Fin (1 / 2) = Fin h \<and> 0 \<le> h \<and> h \<le> 1"
    by (intro exI [of _ "1 / 2"]) simp
  ultimately show ?thesis
    using clamp_range by metis
qed

end
